theory Spec2Isabelle
  imports Complex_Main "HOL-Library.AList"
begin

section \<open>JavaScript values used by the data services\<close>

text \<open>
  Names are ASCII strings. \<open>toLowerCase\<close> lowers the letters A..Z and leaves every other
  character alone, which is what \<^verbatim>\<open>String.prototype.toLowerCase\<close> does on ASCII text.
  A plain object used as a dictionary is an association list in insertion order; the keys
  written into it are ordinary data keys (no inherited property names, no integer-like
  keys). The name that is looked up may be any string, and a read \<^verbatim>\<open>obj[name]\<close> also finds
  what a plain object inherits: for the names of \<open>objectPrototypeNames\<close> it yields a truthy
  value, a function or the prototype itself, that has none of the fields and methods the
  services read from it. Where the code reads only a field of the value
  (\<^verbatim>\<open>obj[name]?.field\<close>), an inherited value gives \<open>undefined\<close> as a missing entry does,
  and the read is written with \<open>map_of\<close>; where the value itself is tested or passed on,
  the read is \<open>getProp\<close>. Reads under the keys and the alternative names of the static
  tables, none of which is an inherited name, are written with \<open>map_of\<close> as well.
\<close>

definition objectPrototypeNames :: "string list" where
  "objectPrototypeNames =
     [''constructor'', ''toString'', ''toLocaleString'', ''valueOf'', ''hasOwnProperty'',
      ''isPrototypeOf'', ''propertyIsEnumerable'', ''__proto__'', ''__defineGetter__'',
      ''__defineSetter__'', ''__lookupGetter__'', ''__lookupSetter__'']"

definition inheritedName :: "string \<Rightarrow> bool" where
  "inheritedName name = (name \<in> set objectPrototypeNames)"

datatype 'a property = Own 'a | Inherited | Absent

definition getProp :: "(string \<times> 'a) list \<Rightarrow> string \<Rightarrow> 'a property" where
  "getProp obj name =
     (case map_of obj name of
        Some v \<Rightarrow> Own v
      | None \<Rightarrow> if inheritedName name then Inherited else Absent)"

definition lowerChar :: "char \<Rightarrow> char" where
  "lowerChar c =
     (let n = (of_char c :: nat) in if 65 \<le> n \<and> n \<le> 90 then char_of (n + 32) else c)"

definition toLowerCase :: "string \<Rightarrow> string" where
  "toLowerCase s = map lowerChar s"

text \<open>\<^verbatim>\<open>a || b\<close> where \<open>a\<close> is a string or undefined: the empty string is falsy.\<close>

definition orStr :: "string option \<Rightarrow> string \<Rightarrow> string" where
  "orStr a b = (case a of None \<Rightarrow> b | Some s \<Rightarrow> if s = [] then b else s)"

text \<open>\<^verbatim>\<open>a || null\<close> for a string or undefined.\<close>

definition orNull :: "string option \<Rightarrow> string option" where
  "orNull a = (case a of None \<Rightarrow> None | Some s \<Rightarrow> if s = [] then None else Some s)"

section \<open>Provider mapping tables\<close>

record chain_info =
  defillamaName :: string
  ci_geckoId :: string
  iconPath :: string
  altNames :: "string list"

definition mkChain :: "string \<Rightarrow> string \<Rightarrow> string \<Rightarrow> string list \<Rightarrow> chain_info" where
  "mkChain d g i a = \<lparr>defillamaName = d, ci_geckoId = g, iconPath = i, altNames = a\<rparr>"

text \<open>\<^verbatim>\<open>CHAIN_NAME_MAP\<close> of services/defillama.js.\<close>

definition CHAIN_NAME_MAP :: "(string \<times> chain_info) list" where
  "CHAIN_NAME_MAP =
    [(''Ethereum'', mkChain ''Ethereum'' ''ethereum'' ''chains/rsz_ethereum.jpg'' [''Ethereum'']),
     (''Solana'', mkChain ''Solana'' ''solana'' ''chains/rsz_solana.jpg'' [''Solana'']),
     (''Bitcoin'', mkChain ''Bitcoin'' ''bitcoin'' ''chains/rsz_bitcoin.jpg'' [''Bitcoin'']),
     (''BSC'', mkChain ''BSC'' ''binancecoin'' ''chains/rsz_bsc.jpg''
        [''BSC'', ''BNB Chain'', ''Binance'']),
     (''Avalanche'', mkChain ''Avalanche'' ''avalanche-2'' ''chains/rsz_avalanche.jpg''
        [''Avalanche'']),
     (''Polygon'', mkChain ''Polygon'' ''matic-network'' ''chains/rsz_polygon.jpg''
        [''Polygon'', ''Matic'']),
     (''Arbitrum'', mkChain ''Arbitrum'' ''arbitrum'' ''chains/rsz_arbitrum.jpg''
        [''Arbitrum'', ''Arbitrum One'']),
     (''Optimism'', mkChain ''Optimism'' ''optimism'' ''chains/rsz_optimism.jpg''
        [''Optimism'', ''OP Mainnet'']),
     (''Base'', mkChain ''Base'' ''ethereum'' ''chains/rsz_base.jpg'' [''Base'']),
     (''Sui'', mkChain ''Sui'' ''sui'' ''chains/rsz_sui.jpg'' [''Sui'']),
     (''Cardano'', mkChain ''Cardano'' ''cardano'' ''chains/rsz_cardano.jpg'' [''Cardano'']),
     (''Tron'', mkChain ''Tron'' ''tron'' ''chains/rsz_tron.jpg'' [''Tron'', ''TRON'']),
     (''TON'', mkChain ''TON'' ''the-open-network'' ''chains/rsz_ton.jpg''
        [''TON'', ''The Open Network'']),
     (''Polkadot'', mkChain ''Polkadot'' ''polkadot'' ''chains/rsz_polkadot.jpg'' [''Polkadot'']),
     (''Near'', mkChain ''Near'' ''near'' ''chains/rsz_near.jpg'' [''Near'', ''NEAR'', ''Aurora'']),
     (''Fantom'', mkChain ''Fantom'' ''fantom'' ''chains/rsz_fantom.jpg'' [''Fantom'', ''Sonic'']),
     (''Cosmos'', mkChain ''CosmosHub'' ''cosmos'' ''chains/rsz_cosmos.jpg''
        [''Cosmos'', ''CosmosHub'', ''Cosmos Hub'']),
     (''Aptos'', mkChain ''Aptos'' ''aptos'' ''chains/rsz_aptos.jpg'' [''Aptos'']),
     (''Cronos'', mkChain ''Cronos'' ''crypto-com-chain'' ''chains/rsz_cronos.jpg'' [''Cronos'']),
     (''Sei'', mkChain ''Sei'' ''sei-network'' ''chains/rsz_sei.jpg'' [''Sei''])]"

text \<open>\<^verbatim>\<open>COINGECKO_IDS\<close> of services/coingecko.js.\<close>

definition COINGECKO_IDS :: "(string \<times> string) list" where
  "COINGECKO_IDS =
    [(''Ethereum'', ''ethereum''), (''Solana'', ''solana''), (''Bitcoin'', ''bitcoin''),
     (''BSC'', ''binancecoin''), (''BNB Chain'', ''binancecoin''),
     (''Avalanche'', ''avalanche-2''), (''Polygon'', ''matic-network''),
     (''Arbitrum'', ''arbitrum''), (''Optimism'', ''optimism''), (''Base'', ''ethereum''),
     (''Sui'', ''sui''), (''Cardano'', ''cardano''), (''Tron'', ''tron''),
     (''TON'', ''the-open-network''), (''Polkadot'', ''polkadot''), (''Near'', ''near''),
     (''Fantom'', ''fantom''), (''Cosmos'', ''cosmos''), (''Aptos'', ''aptos''),
     (''Cronos'', ''crypto-com-chain''), (''Sei'', ''sei-network'')]"

text \<open>\<^verbatim>\<open>DEXSCREENER_CHAIN_MAP\<close> of services/dexscreener.js.\<close>

definition DEXSCREENER_CHAIN_MAP :: "(string \<times> string) list" where
  "DEXSCREENER_CHAIN_MAP =
    [(''Ethereum'', ''ethereum''), (''Solana'', ''solana''), (''Bitcoin'', ''bitcoin''),
     (''BSC'', ''bsc''), (''BNB Chain'', ''bsc''), (''Avalanche'', ''avalanche''),
     (''Polygon'', ''polygon''), (''Arbitrum'', ''arbitrum''), (''Optimism'', ''optimism''),
     (''Base'', ''base''), (''Sui'', ''sui''), (''Tron'', ''tron''), (''TON'', ''ton''),
     (''Near'', ''near''), (''Fantom'', ''fantom''), (''Aptos'', ''aptos''),
     (''Cronos'', ''cronos''), (''Sei'', ''sei''), (''Cardano'', ''cardano''),
     (''Polkadot'', ''polkadot''), (''Cosmos'', ''cosmoshub'')]"

section \<open>Identity resolution\<close>

text \<open>
  \<^verbatim>\<open>CHAIN_NAME_MAP[chainName]?.defillamaName || chainName\<close>: the key used by
  fetchChainDEXVolume, fetchChainFees, fetchChainBridgeVolume, fetchChainHistoricalTVL
  and calculateMarketShare.
\<close>

definition defillamaChainName :: "string \<Rightarrow> string" where
  "defillamaChainName chainName =
     orStr (map_option defillamaName (map_of CHAIN_NAME_MAP chainName)) chainName"

text \<open>
  The chain name chosen at the head of fetchChainProtocols; \<open>chainData\<close> is the
  dictionary returned by fetchChainTVL, consulted only when the name has no entry in
  \<^verbatim>\<open>CHAIN_NAME_MAP\<close>.
\<close>

definition protocolsChainName :: "(string \<times> 'a) list \<Rightarrow> string \<Rightarrow> string" where
  "protocolsChainName chainData chainName =
     (case getProp CHAIN_NAME_MAP chainName of
        Own chainInfo \<Rightarrow> orStr (Some (defillamaName chainInfo)) chainName
      | Inherited \<Rightarrow> chainName
      | Absent \<Rightarrow>
          (if getProp chainData chainName \<noteq> Absent then chainName
           else (case find (\<lambda>key. toLowerCase key = toLowerCase chainName)
                        (map fst chainData) of
                   Some match \<Rightarrow> if match = [] then chainName else match
                 | None \<Rightarrow> chainName)))"

text \<open>
  \<^verbatim>\<open>getCoinGeckoId\<close> of services/coingecko.js, \<^verbatim>\<open>COINGECKO_IDS[networkName] || null\<close>:
  an id, the inherited value, or null (\<open>Absent\<close>).
\<close>

definition getCoinGeckoId :: "string \<Rightarrow> string property" where
  "getCoinGeckoId networkName =
     (case getProp COINGECKO_IDS networkName of
        Own s \<Rightarrow> if s = [] then Absent else Own s
      | Inherited \<Rightarrow> Inherited
      | Absent \<Rightarrow> Absent)"

text \<open>
  \<^verbatim>\<open>chainIdMap[network.name] || network.name.toLowerCase()\<close>, the DexScreener chain id
  computed by StatsCard and by preFetchNetworkData (App.js): a text, or the value
  inherited under the name, which the request then carries as the engine prints it.
\<close>

datatype chain_id = ChainId string | InheritedOf string

definition dexChainId :: "string \<Rightarrow> chain_id" where
  "dexChainId name =
     (case getProp DEXSCREENER_CHAIN_MAP name of
        Own c \<Rightarrow> if c = [] then ChainId (toLowerCase name) else ChainId c
      | Inherited \<Rightarrow> InheritedOf name
      | Absent \<Rightarrow> ChainId (toLowerCase name))"

section \<open>Numbers\<close>

text \<open>
  A number that arrives in a JSON body is finite and is modelled by an exact rational;
  a field that is missing from the body is \<open>None\<close>. Arithmetic on such values can leave
  the finite range (a missing operand, a zero divisor), so the results of the
  percent-change and parseInt computations are \<open>jsnum\<close>: a finite value, one of the two
  infinities, or NaN. Rounding, overflow and the sign of zero are not modelled.
\<close>

datatype jsnum = Num rat | PosInf | NegInf | NaN

fun js_sub :: "jsnum \<Rightarrow> jsnum \<Rightarrow> jsnum" where
  "js_sub (Num a) (Num b) = Num (a - b)"
| "js_sub NaN _ = NaN"
| "js_sub _ NaN = NaN"
| "js_sub PosInf PosInf = NaN"
| "js_sub NegInf NegInf = NaN"
| "js_sub PosInf _ = PosInf"
| "js_sub NegInf _ = NegInf"
| "js_sub (Num a) PosInf = NegInf"
| "js_sub (Num a) NegInf = PosInf"

fun js_div :: "jsnum \<Rightarrow> jsnum \<Rightarrow> jsnum" where
  "js_div (Num a) (Num b) =
     (if b \<noteq> 0 then Num (a / b)
      else if a > 0 then PosInf else if a < 0 then NegInf else NaN)"
| "js_div NaN _ = NaN"
| "js_div _ NaN = NaN"
| "js_div (Num a) _ = Num 0"
| "js_div PosInf (Num b) = (if b \<ge> 0 then PosInf else NegInf)"
| "js_div NegInf (Num b) = (if b \<ge> 0 then NegInf else PosInf)"
| "js_div _ _ = NaN"

fun js_mul :: "jsnum \<Rightarrow> jsnum \<Rightarrow> jsnum" where
  "js_mul (Num a) (Num b) = Num (a * b)"
| "js_mul NaN _ = NaN"
| "js_mul _ NaN = NaN"
| "js_mul PosInf (Num b) = (if b > 0 then PosInf else if b < 0 then NegInf else NaN)"
| "js_mul NegInf (Num b) = (if b > 0 then NegInf else if b < 0 then PosInf else NaN)"
| "js_mul (Num a) PosInf = (if a > 0 then PosInf else if a < 0 then NegInf else NaN)"
| "js_mul (Num a) NegInf = (if a > 0 then NegInf else if a < 0 then PosInf else NaN)"
| "js_mul PosInf PosInf = PosInf"
| "js_mul NegInf NegInf = PosInf"
| "js_mul PosInf NegInf = NegInf"
| "js_mul NegInf PosInf = NegInf"

text \<open>A finite, defined number: neither NaN nor an infinity.\<close>

fun isFiniteNum :: "jsnum \<Rightarrow> bool" where
  "isFiniteNum (Num _) = True"
| "isFiniteNum _ = False"

text \<open>The number read from a possibly missing field: \<open>undefined\<close> converts to NaN.\<close>

definition toNumber :: "rat option \<Rightarrow> jsnum" where
  "toNumber v = (case v of None \<Rightarrow> NaN | Some r \<Rightarrow> Num r)"

text \<open>\<^verbatim>\<open>v || 0\<close> for a finite number or a missing field.\<close>

definition orZero :: "rat option \<Rightarrow> rat" where
  "orZero v = (case v of None \<Rightarrow> 0 | Some r \<Rightarrow> r)"

text \<open>\<^verbatim>\<open>x || 0\<close> for a computed number: zero and NaN are falsy.\<close>

fun jsOrZero :: "jsnum \<Rightarrow> jsnum" where
  "jsOrZero NaN = Num 0"
| "jsOrZero x = x"

section \<open>HTTP responses\<close>

text \<open>
  One bounded attempt per call: \<open>NetworkError\<close> is a rejected \<^verbatim>\<open>fetch\<close> (or a body that
  does not parse), \<open>HttpError\<close> a response whose \<^verbatim>\<open>ok\<close> flag is false, \<open>Ok\<close> a parsed body of
  the provider's shape. Optional fields of a body are options.
\<close>

datatype 'a response = NetworkError | HttpError | Ok 'a

text \<open>
  The outcome of a promise: fulfilled with a value, or rejected by an exception that
  left the function. \<^verbatim>\<open>Promise.allSettled\<close> and \<^verbatim>\<open>catch\<close> both see it.
\<close>

datatype 'a settled = Fulfilled 'a | Rejected

record chain_row =
  cr_name :: string
  cr_tvl :: "rat option"
  cr_tokenSymbol :: "string option"
  cr_gecko_id :: "string option"

record protocol_row =
  pr_name :: string
  pr_tvl :: "rat option"
  pr_category :: "string option"
  pr_chains :: "string list option"

record dex_overview =
  totalVolume :: "rat option"
  totalVolume7d :: "rat option"
  dx_change_1d :: "rat option"
  dx_change_7d :: "rat option"
  dx_protocols :: "string list option"

record fees_overview =
  totalFees24h :: "rat option"
  totalFees7d :: "rat option"
  totalRevenue24h :: "rat option"
  totalRevenue7d :: "rat option"
  fo_change_1d :: "rat option"
  fo_change_7d :: "rat option"

record bridge_row =
  br_volume24h :: "rat option"
  br_volume7d :: "rat option"
  br_volume30d :: "rat option"

record hist_row =
  h_date :: "rat option"
  h_tvl :: "rat option"

record coin_data =
  current_price_usd :: "rat option"
  market_cap_usd :: "rat option"

record pair_row =
  liquidity_usd :: "rat option"

record stable_row =
  sr_name :: string
  peggedUSD :: "rat option"

record pool_row =
  pl_pool :: string
  pl_project :: string
  pl_symbol :: string
  pl_chain :: "string option"
  pl_tvlUsd :: "rat option"
  pl_apy :: "rat option"
  pl_apyBase :: "rat option"
  pl_apyReward :: "rat option"
  pl_stablecoin :: "bool option"

record fng_row =
  fr_value :: "string option"
  fr_value_classification :: "string option"
  fr_timestamp :: "string option"

text \<open>
  The providers as seen during one snapshot build: the answer of each endpoint, by the
  path segment the request carries.
\<close>

record world =
  w_chains :: "chain_row list response"
  w_protocols :: "protocol_row list response"
  w_dexs :: "string \<Rightarrow> dex_overview response"
  w_fees :: "string \<Rightarrow> fees_overview response"
  w_bridges :: "string \<Rightarrow> bridge_row list option response"
  w_historicalChainTvl :: "string \<Rightarrow> hist_row list response"
  w_coins :: "string \<Rightarrow> coin_data response"
  w_market_chart :: "string \<Rightarrow> (rat \<times> rat) list response"
  w_pairs :: "chain_id \<Rightarrow> pair_row list option response"
  w_search :: "string \<Rightarrow> pair_row list option response"
  w_stablecoinchains :: "stable_row list response"
  w_pools :: "pool_row list option response"
  w_fng :: "fng_row list option response"

section \<open>The registry provider (services/defillama.js)\<close>

record tvl_entry =
  te_tvl :: rat
  te_tokenSymbol :: "string option"
  te_geckoId :: "string option"

type_synonym tvl_map = "(string \<times> tvl_entry) list"

text \<open>
  fetchChainTVL: the dictionary from chain name to TVL; the empty dictionary when the
  request fails.
\<close>

definition fetchChainTVL :: "world \<Rightarrow> tvl_map" where
  "fetchChainTVL w =
     (case w_chains w of
        Ok data \<Rightarrow>
          foldl (\<lambda>tvlMap chain.
                   if cr_name chain \<noteq> [] \<and> cr_tvl chain \<noteq> None
                   then AList.update (cr_name chain)
                          \<lparr>te_tvl = orZero (cr_tvl chain),
                           te_tokenSymbol = cr_tokenSymbol chain,
                           te_geckoId = cr_gecko_id chain\<rparr> tvlMap
                   else tvlMap) [] data
      | _ \<Rightarrow> [])"

text \<open>
  calculateMarketShare. A network is given by its name or by an object with a
  \<open>name\<close> field; \<open>None\<close> for the list is the omitted argument.
\<close>

datatype network_arg = NetName string | NetObj string

fun networkNameOf :: "network_arg \<Rightarrow> string" where
  "networkNameOf (NetName s) = s"
| "networkNameOf (NetObj s) = s"

record share =
  percentage :: rat
  sh_tvl :: rat
  totalTVL :: rat

definition resolvedTvl :: "tvl_map \<Rightarrow> network_arg \<Rightarrow> rat" where
  "resolvedTvl tvlData network =
     (let networkName = networkNameOf network;
          defillamaName = defillamaChainName networkName
      in case map_of tvlData defillamaName of
           None \<Rightarrow> 0
         | Some chainData \<Rightarrow> te_tvl chainData)"

definition calculateMarketShare ::
    "tvl_map \<Rightarrow> network_arg list option \<Rightarrow> (string \<times> share) list" where
  "calculateMarketShare tvlData networks =
     (let networksToProcess =
            (case networks of
               None \<Rightarrow> map (\<lambda>kv. NetName (fst kv)) CHAIN_NAME_MAP
             | Some ns \<Rightarrow> ns);
          grandTotal = foldl (\<lambda>acc network. acc + resolvedTvl tvlData network) 0 networksToProcess
      in foldl (\<lambda>marketShare network.
                  let tvl = resolvedTvl tvlData network
                  in AList.update (networkNameOf network)
                       \<lparr>percentage = (if grandTotal > 0 then (tvl / grandTotal) * 100 else 0),
                        sh_tvl = tvl,
                        totalTVL = grandTotal\<rparr> marketShare)
               [] networksToProcess)"

text \<open>
  fetchProtocols, the \<open>counts\<close> component: protocols per chain, credited to the roster
  name whose \<open>defillamaName\<close> is the chain, or else to the chain itself.
\<close>

definition bump :: "string \<Rightarrow> (string \<times> nat) list \<Rightarrow> (string \<times> nat) list" where
  "bump k counts =
     AList.update k ((case map_of counts k of None \<Rightarrow> 0 | Some c \<Rightarrow> c) + 1) counts"

definition countChain :: "(string \<times> nat) list \<Rightarrow> string \<Rightarrow> (string \<times> nat) list" where
  "countChain counts chain =
     (case find (\<lambda>kv. defillamaName (snd kv) = chain) CHAIN_NAME_MAP of
        Some kv \<Rightarrow> if fst kv \<noteq> [] then bump (fst kv) counts else counts
      | None \<Rightarrow> bump chain counts)"

definition fetchProtocols :: "world \<Rightarrow> (string \<times> nat) list" where
  "fetchProtocols w =
     (case w_protocols w of
        Ok protocols \<Rightarrow>
          foldl (\<lambda>counts protocol.
                   case pr_chains protocol of
                     None \<Rightarrow> counts
                   | Some chainList \<Rightarrow> foldl countChain counts chainList) [] protocols
      | _ \<Rightarrow> [])"

record dex_volume =
  dv_volume24h :: rat
  dv_volume7d :: rat
  dv_change_1d :: rat
  dv_change_7d :: rat
  dv_protocolCount :: nat
  dv_protocols :: "string list"

definition fetchChainDEXVolume :: "world \<Rightarrow> string \<Rightarrow> dex_volume option" where
  "fetchChainDEXVolume w chainName =
     (case w_dexs w (defillamaChainName chainName) of
        Ok data \<Rightarrow>
          Some \<lparr>dv_volume24h = orZero (totalVolume data),
                dv_volume7d = orZero (totalVolume7d data),
                dv_change_1d = orZero (dx_change_1d data),
                dv_change_7d = orZero (dx_change_7d data),
                dv_protocolCount = (case dx_protocols data of None \<Rightarrow> 0 | Some ps \<Rightarrow> length ps),
                dv_protocols = (case dx_protocols data of None \<Rightarrow> [] | Some ps \<Rightarrow> ps)\<rparr>
      | _ \<Rightarrow> None)"

record chain_fees =
  cf_fees24h :: rat
  cf_fees7d :: rat
  cf_revenue24h :: rat
  cf_revenue7d :: rat
  cf_change_1d :: rat
  cf_change_7d :: rat

definition fetchChainFees :: "world \<Rightarrow> string \<Rightarrow> chain_fees option" where
  "fetchChainFees w chainName =
     (case w_fees w (defillamaChainName chainName) of
        Ok data \<Rightarrow>
          Some \<lparr>cf_fees24h = orZero (totalFees24h data),
                cf_fees7d = orZero (totalFees7d data),
                cf_revenue24h = orZero (totalRevenue24h data),
                cf_revenue7d = orZero (totalRevenue7d data),
                cf_change_1d = orZero (fo_change_1d data),
                cf_change_7d = orZero (fo_change_7d data)\<rparr>
      | _ \<Rightarrow> None)"

record bridge_volume =
  bv_volume24h :: rat
  bv_volume7d :: rat
  bv_volume30d :: rat
  bv_bridgeCount :: nat

definition fetchChainBridgeVolume :: "world \<Rightarrow> string \<Rightarrow> bridge_volume option" where
  "fetchChainBridgeVolume w chainName =
     (case w_bridges w (defillamaChainName chainName) of
        Ok bridges \<Rightarrow>
          (let bs = (case bridges of None \<Rightarrow> [] | Some l \<Rightarrow> l)
           in Some \<lparr>bv_volume24h = foldl (\<lambda>t bridge. t + orZero (br_volume24h bridge)) 0 bs,
                    bv_volume7d = foldl (\<lambda>t bridge. t + orZero (br_volume7d bridge)) 0 bs,
                    bv_volume30d = foldl (\<lambda>t bridge. t + orZero (br_volume30d bridge)) 0 bs,
                    bv_bridgeCount = length bs\<rparr>)
      | _ \<Rightarrow> None)"

text \<open>
  fetchChainHistoricalTVL. The entries of the series are objects, so the guards
  \<^verbatim>\<open>dayAgo && latest\<close> and \<^verbatim>\<open>weekAgo && latest\<close> hold whenever the series is not empty; the
  percent change reads the \<open>tvl\<close> fields as they are.
\<close>

record historical =
  currentTVL :: rat
  change1d :: jsnum
  change7d :: jsnum
  dataPoints :: nat

definition pctChange :: "hist_row \<Rightarrow> hist_row \<Rightarrow> jsnum" where
  "pctChange latest past =
     js_mul (js_div (js_sub (toNumber (h_tvl latest)) (toNumber (h_tvl past)))
                    (toNumber (h_tvl past)))
            (Num 100)"

definition historicalOf :: "hist_row list \<Rightarrow> historical option" where
  "historicalOf data =
     (if length data > 0 then
        (let latest = data ! (length data - 1);
             dayAgo = (if length data > 1 then data ! (length data - 2) else latest);
             weekAgo = (if length data > 7 then data ! (length data - 8) else latest)
         in Some \<lparr>currentTVL = orZero (h_tvl latest),
                  change1d = pctChange latest dayAgo,
                  change7d = pctChange latest weekAgo,
                  dataPoints = length data\<rparr>)
      else None)"

definition fetchChainHistoricalTVL :: "world \<Rightarrow> string \<Rightarrow> historical option" where
  "fetchChainHistoricalTVL w chainName =
     (case w_historicalChainTvl w (defillamaChainName chainName) of
        Ok data \<Rightarrow> historicalOf data
      | _ \<Rightarrow> None)"

text \<open>fetchAllChains: the twenty largest chains above one million of TVL.\<close>

record listed_chain =
  lc_name :: string
  lc_tvl :: rat
  lc_tokenSymbol :: "string option"
  lc_geckoId :: "string option"

definition fetchAllChains :: "world \<Rightarrow> listed_chain list" where
  "fetchAllChains w =
     (case w_chains w of
        Ok data \<Rightarrow>
          map (\<lambda>chain. \<lparr>lc_name = cr_name chain,
                         lc_tvl = orZero (cr_tvl chain),
                         lc_tokenSymbol = cr_tokenSymbol chain,
                         lc_geckoId = cr_gecko_id chain\<rparr>)
            (take 20
               (sort_key (\<lambda>chain. - orZero (cr_tvl chain))
                  (filter (\<lambda>chain. orZero (cr_tvl chain) \<noteq> 0 \<and> orZero (cr_tvl chain) > 1000000)
                     data)))
      | _ \<Rightarrow> [])"

text \<open>fetchChainProtocols: the twenty largest protocols deployed on the chain.\<close>

record top_protocol =
  tp_name :: string
  tp_tvl :: rat
  tp_category :: string

definition fetchChainProtocols :: "world \<Rightarrow> string \<Rightarrow> top_protocol list" where
  "fetchChainProtocols w chainName =
     (let defillamaChainName = protocolsChainName (fetchChainTVL w) chainName
      in case w_protocols w of
           Ok allProtocols \<Rightarrow>
             take 20
               (sort_key (\<lambda>p. - tp_tvl p)
                  (map (\<lambda>protocol. \<lparr>tp_name = pr_name protocol,
                                     tp_tvl = orZero (pr_tvl protocol),
                                     tp_category = orStr (pr_category protocol) ''Other''\<rparr>)
                     (filter (\<lambda>protocol.
                                case pr_chains protocol of
                                  None \<Rightarrow> False
                                | Some chainList \<Rightarrow> defillamaChainName \<in> set chainList)
                        allProtocols)))
         | _ \<Rightarrow> [])"

text \<open>
  fetchNetworkDetails. \<open>findChainData\<close> is the search for the chain's entry: under the
  network name, under the mapped name, under each alternative name in order, and last
  under the first key equal to either name up to case. The first component is the entry
  whose \<open>tvl\<close> is read. A value inherited under the name is truthy, so it ends the search,
  and it has no \<open>tvl\<close>. The alternative names of the table are ordinary names.
\<close>

fun altNameLookup :: "(string \<times> 'a) list \<Rightarrow> string list \<Rightarrow> ('a \<times> string) option" where
  "altNameLookup tvlData [] = None"
| "altNameLookup tvlData (altName # rest) =
     (case map_of tvlData altName of
        Some d \<Rightarrow> Some (d, altName)
      | None \<Rightarrow> altNameLookup tvlData rest)"

definition findChainData :: "(string \<times> 'a) list \<Rightarrow> string \<Rightarrow> 'a option \<times> string" where
  "findChainData tvlData networkName =
     (let chainInfo = map_of CHAIN_NAME_MAP networkName;
          name0 = orStr (map_option defillamaName chainInfo) networkName;
          direct = (case getProp tvlData networkName of
                      Absent \<Rightarrow> getProp tvlData name0
                    | p \<Rightarrow> p)
      in case direct of
           Own d \<Rightarrow> (Some d, name0)
         | Inherited \<Rightarrow> (None, name0)
         | Absent \<Rightarrow>
             (let viaAlt = (case chainInfo of
                              None \<Rightarrow> (None, name0)
                            | Some ci \<Rightarrow>
                                (case altNameLookup tvlData (altNames ci) of
                                   Some (d, altName) \<Rightarrow> (Some d, altName)
                                 | None \<Rightarrow> (None, name0)))
              in case fst viaAlt of
                   Some d \<Rightarrow> viaAlt
                 | None \<Rightarrow>
                     (case find (\<lambda>key. toLowerCase key = toLowerCase networkName \<or>
                                       toLowerCase key = toLowerCase (snd viaAlt))
                                (map fst tvlData) of
                        Some match \<Rightarrow>
                          if match = [] then viaAlt else (map_of tvlData match, match)
                      | None \<Rightarrow> viaAlt)))"

text \<open>
  The returned record keeps the numeric fields and the protocol list; the formatted
  strings, the category tables and the logo are display copy and are left out. Every
  helper fails soft, so the handler at the end of the function is never entered.
\<close>

record details =
  d_tvl :: rat
  d_dappCount :: "nat property"
  d_topProtocols :: "top_protocol list"
  d_dexVolume24h :: rat
  d_dexVolume7d :: rat
  d_dexChange1d :: rat
  d_dexChange7d :: rat
  d_fees24h :: rat
  d_fees7d :: rat
  d_revenue24h :: rat
  d_revenue7d :: rat
  d_bridgeVolume24h :: rat
  d_bridgeVolume7d :: rat
  d_bridgeCount :: nat
  d_tvlChange1d :: jsnum
  d_tvlChange7d :: jsnum
  d_geckoId :: "string option"

text \<open>
  \<^verbatim>\<open>a || b || c || 0\<close> on counts read from the table of protocol counts: a number, or
  the value inherited under the name, which is truthy and is taken as it is.
\<close>

definition firstNonZero :: "nat property \<Rightarrow> nat property \<Rightarrow> nat \<Rightarrow> nat property" where
  "firstNonZero a b c =
     (let rest = (case b of
                    Own y \<Rightarrow> if y \<noteq> 0 then Own y else Own c
                  | Inherited \<Rightarrow> Inherited
                  | Absent \<Rightarrow> Own c)
      in case a of
           Own x \<Rightarrow> if x \<noteq> 0 then Own x else rest
         | Inherited \<Rightarrow> Inherited
         | Absent \<Rightarrow> rest)"

definition fetchNetworkDetails :: "world \<Rightarrow> string \<Rightarrow> details" where
  "fetchNetworkDetails w networkName =
     (let chainInfo = map_of CHAIN_NAME_MAP networkName;
          tvlData = fetchChainTVL w;
          protocolCounts = fetchProtocols w;
          topProtocols = fetchChainProtocols w networkName;
          found = findChainData tvlData networkName;
          chainData = fst found;
          defillamaChainName = snd found;
          dexData = fetchChainDEXVolume w networkName;
          feesData = fetchChainFees w networkName;
          bridgeData = fetchChainBridgeVolume w networkName;
          historicalData = fetchChainHistoricalTVL w networkName
      in \<lparr>d_tvl = (case chainData of None \<Rightarrow> 0 | Some d \<Rightarrow> te_tvl d),
          d_dappCount = firstNonZero (getProp protocolCounts networkName)
                          (getProp protocolCounts defillamaChainName) (length topProtocols),
          d_topProtocols = topProtocols,
          d_dexVolume24h = (case dexData of None \<Rightarrow> 0 | Some d \<Rightarrow> dv_volume24h d),
          d_dexVolume7d = (case dexData of None \<Rightarrow> 0 | Some d \<Rightarrow> dv_volume7d d),
          d_dexChange1d = (case dexData of None \<Rightarrow> 0 | Some d \<Rightarrow> dv_change_1d d),
          d_dexChange7d = (case dexData of None \<Rightarrow> 0 | Some d \<Rightarrow> dv_change_7d d),
          d_fees24h = (case feesData of None \<Rightarrow> 0 | Some d \<Rightarrow> cf_fees24h d),
          d_fees7d = (case feesData of None \<Rightarrow> 0 | Some d \<Rightarrow> cf_fees7d d),
          d_revenue24h = (case feesData of None \<Rightarrow> 0 | Some d \<Rightarrow> cf_revenue24h d),
          d_revenue7d = (case feesData of None \<Rightarrow> 0 | Some d \<Rightarrow> cf_revenue7d d),
          d_bridgeVolume24h = (case bridgeData of None \<Rightarrow> 0 | Some d \<Rightarrow> bv_volume24h d),
          d_bridgeVolume7d = (case bridgeData of None \<Rightarrow> 0 | Some d \<Rightarrow> bv_volume7d d),
          d_bridgeCount = (case bridgeData of None \<Rightarrow> 0 | Some d \<Rightarrow> bv_bridgeCount d),
          d_tvlChange1d = (case historicalData of None \<Rightarrow> Num 0 | Some h \<Rightarrow> jsOrZero (change1d h)),
          d_tvlChange7d = (case historicalData of None \<Rightarrow> Num 0 | Some h \<Rightarrow> jsOrZero (change7d h)),
          d_geckoId = orNull (map_option ci_geckoId chainInfo)\<rparr>)"

section \<open>The market-data provider (services/coingecko.js)\<close>

definition isSpaceChar :: "char \<Rightarrow> bool" where
  "isSpaceChar c = (let n = (of_char c :: nat) in n = 32 \<or> (9 \<le> n \<and> n \<le> 13))"

definition trim :: "string \<Rightarrow> string" where
  "trim s = rev (dropWhile isSpaceChar (rev (dropWhile isSpaceChar s)))"

definition fetchCoinData :: "world \<Rightarrow> string \<Rightarrow> coin_data option" where
  "fetchCoinData w coinId = (case w_coins w coinId of Ok data \<Rightarrow> Some data | _ \<Rightarrow> None)"

text \<open>fetchHistoricalPrice; both callers ask for seven days.\<close>

definition fetchHistoricalPrice :: "world \<Rightarrow> string \<Rightarrow> (rat \<times> rat) list option" where
  "fetchHistoricalPrice w coinId =
     (case w_market_chart w coinId of Ok data \<Rightarrow> Some data | _ \<Rightarrow> None)"

text \<open>
  fetchNetworkCoinData. The test \<^verbatim>\<open>coinId.trim() === ''\<close> stands before the \<^verbatim>\<open>try\<close>: an
  inherited value has no \<^verbatim>\<open>trim\<close>, the call throws and the promise is rejected.
\<close>

definition fetchNetworkCoinData ::
    "world \<Rightarrow> string \<Rightarrow> string option \<Rightarrow> coin_data option settled" where
  "fetchNetworkCoinData w networkName geckoId =
     (let coinId = (case orNull geckoId of
                      Some g \<Rightarrow> Own g
                    | None \<Rightarrow> getCoinGeckoId networkName)
      in case coinId of
           Absent \<Rightarrow> Fulfilled None
         | Inherited \<Rightarrow> Rejected
         | Own c \<Rightarrow> if trim c = [] then Fulfilled None else Fulfilled (fetchCoinData w c))"

section \<open>The liquidity provider (services/dexscreener.js)\<close>

record liquidity =
  totalLiquidity :: rat
  pairCount :: nat

text \<open>
  The loop shared by fetchChainTotalLiquidity and the search fallback: a pair counts
  when \<^verbatim>\<open>pair.liquidity?.usd\<close> is truthy, and \<^verbatim>\<open>parseFloat\<close> of a number is that number.
\<close>

definition sumLiquidity :: "pair_row list \<Rightarrow> rat" where
  "sumLiquidity pairs =
     foldl (\<lambda>acc pair.
              case liquidity_usd pair of
                None \<Rightarrow> acc
              | Some usd \<Rightarrow> if usd \<noteq> 0 then acc + usd else acc) 0 pairs"

definition fetchChainTotalLiquidity :: "world \<Rightarrow> chain_id \<Rightarrow> liquidity option" where
  "fetchChainTotalLiquidity w chainId =
     (case w_pairs w chainId of
        Ok (Some pairs) \<Rightarrow>
          Some \<lparr>totalLiquidity = sumLiquidity pairs, pairCount = length pairs\<rparr>
      | _ \<Rightarrow> None)"

definition searchTokens :: "world \<Rightarrow> string \<Rightarrow> pair_row list option option" where
  "searchTokens w query = (case w_search w query of Ok data \<Rightarrow> Some data | _ \<Rightarrow> None)"

section \<open>The stablecoin provider (services/stablecoins.js)\<close>

record stable_entry =
  totalCirculatingUSD :: rat

record stable_state =
  stablecoinChainsCache :: "(string \<times> stable_entry) list option"
  stablecoinCacheTime :: int

definition STABLECOIN_CACHE_TTL :: int where
  "STABLECOIN_CACHE_TTL = 5 * 60 * 1000"

definition downloadStablecoinChains ::
    "world \<Rightarrow> int \<Rightarrow> stable_state \<Rightarrow> (string \<times> stable_entry) list \<times> stable_state" where
  "downloadStablecoinChains w now st =
     (case w_stablecoinchains w of
        Ok data \<Rightarrow>
          (let chainMap =
                 foldl (\<lambda>m chain.
                          if sr_name chain \<noteq> []
                          then AList.update (sr_name chain)
                                 \<lparr>totalCirculatingUSD = orZero (peggedUSD chain)\<rparr> m
                          else m) [] data
           in (chainMap, \<lparr>stablecoinChainsCache = Some chainMap, stablecoinCacheTime = now\<rparr>))
      | _ \<Rightarrow> ([], st))"

definition fetchStablecoinChains ::
    "world \<Rightarrow> int \<Rightarrow> stable_state \<Rightarrow> (string \<times> stable_entry) list \<times> stable_state" where
  "fetchStablecoinChains w now st =
     (case stablecoinChainsCache st of
        Some cached \<Rightarrow>
          if now - stablecoinCacheTime st < STABLECOIN_CACHE_TTL then (cached, st)
          else downloadStablecoinChains w now st
      | None \<Rightarrow> downloadStablecoinChains w now st)"

text \<open>
  The value returned by fetchChainStablecoinTVL for a given map of chains; \<open>None\<close> is
  \<open>undefined\<close>, which is what \<^verbatim>\<open>data.totalCirculatingUSD\<close> gives when \<open>data\<close> is a value
  inherited under the name.
\<close>

definition stablecoinOf :: "(string \<times> stable_entry) list \<Rightarrow> string \<Rightarrow> rat option" where
  "stablecoinOf chainMap chainName =
     (case getProp chainMap chainName of
        Own d \<Rightarrow> Some (totalCirculatingUSD d)
      | Inherited \<Rightarrow> None
      | Absent \<Rightarrow>
          (let data = (case find (\<lambda>k. toLowerCase k = toLowerCase chainName)
                              (map fst chainMap) of
                         Some key \<Rightarrow> if key = [] then None else map_of chainMap key
                       | None \<Rightarrow> None)
           in case data of Some d \<Rightarrow> Some (totalCirculatingUSD d) | None \<Rightarrow> Some 0))"

definition fetchChainStablecoinTVL ::
    "world \<Rightarrow> int \<Rightarrow> stable_state \<Rightarrow> string \<Rightarrow> rat option \<times> stable_state" where
  "fetchChainStablecoinTVL w now st chainName =
     (let r = fetchStablecoinChains w now st in (stablecoinOf (fst r) chainName, snd r))"

section \<open>The yield provider (services/yields.js)\<close>

record yields_state =
  poolsCache :: "pool_row list option"
  poolsCacheTime :: int

definition YIELDS_CACHE_TTL :: int where
  "YIELDS_CACHE_TTL = 5 * 60 * 1000"

definition downloadPools :: "world \<Rightarrow> int \<Rightarrow> yields_state \<Rightarrow> pool_row list \<times> yields_state" where
  "downloadPools w now st =
     (case w_pools w of
        Ok body \<Rightarrow>
          (let pools = (case body of None \<Rightarrow> [] | Some l \<Rightarrow> l)
           in (pools, \<lparr>poolsCache = Some pools, poolsCacheTime = now\<rparr>))
      | _ \<Rightarrow> ([], st))"

definition fetchAllPools :: "world \<Rightarrow> int \<Rightarrow> yields_state \<Rightarrow> pool_row list \<times> yields_state" where
  "fetchAllPools w now st =
     (case poolsCache st of
        Some cached \<Rightarrow>
          if now - poolsCacheTime st < YIELDS_CACHE_TTL then (cached, st)
          else downloadPools w now st
      | None \<Rightarrow> downloadPools w now st)"

text \<open>Comparisons with a missing field are false.\<close>

definition gt :: "rat option \<Rightarrow> rat \<Rightarrow> bool" where
  "gt v x = (case v of None \<Rightarrow> False | Some r \<Rightarrow> r > x)"

definition lt :: "rat option \<Rightarrow> rat \<Rightarrow> bool" where
  "lt v x = (case v of None \<Rightarrow> False | Some r \<Rightarrow> r < x)"

definition onChain :: "string \<Rightarrow> pool_row \<Rightarrow> bool" where
  "onChain chainName pool =
     (case pl_chain pool of
        None \<Rightarrow> False
      | Some c \<Rightarrow> c \<noteq> [] \<and> toLowerCase c = toLowerCase chainName)"

record top_yield =
  ty_pool :: string
  ty_project :: string
  ty_symbol :: string
  ty_chain :: "string option"
  ty_apy :: rat
  ty_apyBase :: rat
  ty_apyReward :: rat
  ty_tvlUsd :: rat
  ty_stablecoin :: bool

definition topYieldsOf :: "pool_row list \<Rightarrow> string \<Rightarrow> nat \<Rightarrow> top_yield list" where
  "topYieldsOf pools chainName limit =
     map (\<lambda>pool. \<lparr>ty_pool = pl_pool pool, ty_project = pl_project pool,
                   ty_symbol = pl_symbol pool, ty_chain = pl_chain pool,
                   ty_apy = orZero (pl_apy pool), ty_apyBase = orZero (pl_apyBase pool),
                   ty_apyReward = orZero (pl_apyReward pool),
                   ty_tvlUsd = orZero (pl_tvlUsd pool),
                   ty_stablecoin = (case pl_stablecoin pool of None \<Rightarrow> False | Some b \<Rightarrow> b)\<rparr>)
       (take limit
          (sort_key (\<lambda>pool. - orZero (pl_tvlUsd pool))
             (filter (\<lambda>pool. onChain chainName pool \<and> gt (pl_tvlUsd pool) 1000000 \<and>
                              gt (pl_apy pool) 0 \<and> lt (pl_apy pool) 1000) pools)))"

definition fetchChainTopYields ::
    "world \<Rightarrow> int \<Rightarrow> yields_state \<Rightarrow> string \<Rightarrow> nat \<Rightarrow> top_yield list \<times> yields_state" where
  "fetchChainTopYields w now st chainName limit =
     (let r = fetchAllPools w now st in (topYieldsOf (fst r) chainName limit, snd r))"

record yield_stats =
  poolCount :: nat
  totalYieldTvl :: rat
  avgApy :: rat
  weightedAvgApy :: rat
  medianApy :: rat

definition yieldStatsOf :: "pool_row list \<Rightarrow> string \<Rightarrow> yield_stats option" where
  "yieldStatsOf pools chainName =
     (let chainPools = filter (\<lambda>pool. onChain chainName pool \<and> gt (pl_tvlUsd pool) 0) pools
      in if length chainPools = 0 then None
         else
           (let totalTvl = foldl (\<lambda>acc p. acc + orZero (pl_tvlUsd p)) 0 chainPools;
                realistic = filter (\<lambda>p. gt (pl_apy p) 0 \<and> lt (pl_apy p) 1000) chainPools;
                apys = map (\<lambda>p. orZero (pl_apy p)) realistic;
                weightedSum =
                  foldl (\<lambda>acc p. acc + orZero (pl_apy p) * orZero (pl_tvlUsd p)) 0 realistic
            in Some \<lparr>poolCount = length chainPools,
                     totalYieldTvl = totalTvl,
                     avgApy = (if length apys > 0
                               then foldl (\<lambda>a b. a + b) 0 apys / of_nat (length apys) else 0),
                     weightedAvgApy = (if totalTvl > 0 then weightedSum / totalTvl else 0),
                     medianApy = (if length apys > 0
                                  then sort apys ! (length apys div 2) else 0)\<rparr>))"

definition fetchChainYieldStats ::
    "world \<Rightarrow> int \<Rightarrow> yields_state \<Rightarrow> string \<Rightarrow> yield_stats option \<times> yields_state" where
  "fetchChainYieldStats w now st chainName =
     (let r = fetchAllPools w now st in (yieldStatsOf (fst r) chainName, snd r))"

section \<open>The sentiment provider (services/feargreed.js)\<close>

text \<open>
  \<^verbatim>\<open>parseInt\<close> with no radix: leading white space, an optional sign, an optional
  \<^verbatim>\<open>0x\<close> prefix, then the longest run of digits; NaN when there is no digit. A missing
  field is converted to the text \<^verbatim>\<open>undefined\<close>, which has none.
\<close>

definition digitOf :: "char \<Rightarrow> nat" where
  "digitOf c =
     (let n = (of_char c :: nat)
      in if 48 \<le> n \<and> n \<le> 57 then n - 48
         else if 97 \<le> n \<and> n \<le> 122 then n - 87
         else if 65 \<le> n \<and> n \<le> 90 then n - 55
         else 36)"

definition parseInt :: "string \<Rightarrow> jsnum" where
  "parseInt s =
     (let s1 = dropWhile isSpaceChar s;
          neg = (case s1 of c # _ \<Rightarrow> c = CHR ''-'' | [] \<Rightarrow> False);
          s2 = (case s1 of
                  c # r \<Rightarrow> if c = CHR ''-'' \<or> c = CHR ''+'' then r else s1
                | [] \<Rightarrow> s1);
          hex = (case s2 of
                   a # b # _ \<Rightarrow> a = CHR ''0'' \<and> (b = CHR ''x'' \<or> b = CHR ''X'')
                 | _ \<Rightarrow> False);
          radix = (if hex then 16 else 10);
          s3 = (if hex then drop 2 s2 else s2);
          ds = takeWhile (\<lambda>c. digitOf c < radix) s3;
          magnitude = foldl (\<lambda>a c. a * radix + digitOf c) 0 ds
      in if ds = [] then NaN
         else Num (if neg then - of_nat magnitude else of_nat magnitude))"

definition parseIntField :: "string option \<Rightarrow> jsnum" where
  "parseIntField v = (case v of None \<Rightarrow> parseInt ''undefined'' | Some s \<Rightarrow> parseInt s)"

record fng_result =
  fg_value :: jsnum
  fg_classification :: "string option"
  fg_timestamp :: "string option"
  fg_previousValue :: "jsnum option"
  fg_previousClassification :: "string option"
  fg_weekAgoValue :: "jsnum option"
  fg_change24h :: "jsnum option"
  fg_change7d :: "jsnum option"

record fng_state =
  fngCache :: "fng_result option"
  fngCacheTime :: int

definition FNG_CACHE_TTL :: int where
  "FNG_CACHE_TTL = 10 * 60 * 1000"

definition fngResultOf :: "fng_row list \<Rightarrow> fng_result" where
  "fngResultOf rows =
     (let current = rows ! 0;
          previous = (if length rows > 1 then Some (rows ! 1) else None);
          weekAgo = (if length rows \<ge> 7 then Some (rows ! 6) else None)
      in \<lparr>fg_value = parseIntField (fr_value current),
          fg_classification = fr_value_classification current,
          fg_timestamp = fr_timestamp current,
          fg_previousValue = map_option (\<lambda>p. parseIntField (fr_value p)) previous,
          fg_previousClassification =
            (case previous of None \<Rightarrow> None | Some p \<Rightarrow> fr_value_classification p),
          fg_weekAgoValue = map_option (\<lambda>p. parseIntField (fr_value p)) weekAgo,
          fg_change24h =
            map_option (\<lambda>p. js_sub (parseIntField (fr_value current)) (parseIntField (fr_value p)))
              previous,
          fg_change7d =
            map_option (\<lambda>p. js_sub (parseIntField (fr_value current)) (parseIntField (fr_value p)))
              weekAgo\<rparr>)"

definition downloadFearGreed :: "world \<Rightarrow> int \<Rightarrow> fng_state \<Rightarrow> fng_result option \<times> fng_state" where
  "downloadFearGreed w now st =
     (case w_fng w of
        Ok body \<Rightarrow>
          (case body of
             None \<Rightarrow> (None, st)
           | Some rows \<Rightarrow>
               if length rows = 0 then (None, st)
               else (let result = fngResultOf rows
                     in (Some result, \<lparr>fngCache = Some result, fngCacheTime = now\<rparr>)))
      | _ \<Rightarrow> (None, st))"

definition fetchFearGreedIndex :: "world \<Rightarrow> int \<Rightarrow> fng_state \<Rightarrow> fng_result option \<times> fng_state" where
  "fetchFearGreedIndex w now st =
     (case fngCache st of
        Some cached \<Rightarrow>
          if now - fngCacheTime st < FNG_CACHE_TTL then (Some cached, st)
          else downloadFearGreed w now st
      | None \<Rightarrow> downloadFearGreed w now st)"

section \<open>The roster (Hero.js)\<close>

text \<open>
  A colour is a hex literal, or the colour derived from the hash of a discovered chain's
  name; a position is the unit vector along given coordinates, or a point of the
  Fibonacci sphere. Logos, statistics copy and spotlight text are display data and are
  left out.
\<close>

datatype color = ColorHex string | ColorOfName string

datatype position = Normalized rat rat rat | FibonacciPoint nat nat

record network =
  n_name :: string
  n_symbol :: string
  n_color :: color
  n_pos :: position
  n_geckoId :: "string option"
  n_rawTvl :: "rat option"
  n_marketShare :: "rat option"

definition mkNet ::
    "string \<Rightarrow> string \<Rightarrow> string \<Rightarrow> rat \<Rightarrow> rat \<Rightarrow> rat \<Rightarrow> string option \<Rightarrow> network" where
  "mkNet nm sy hex x y z g =
     \<lparr>n_name = nm, n_symbol = sy, n_color = ColorHex hex, n_pos = Normalized x y z,
      n_geckoId = g, n_rawTvl = None, n_marketShare = None\<rparr>"

definition BASE_NETWORKS :: "network list" where
  "BASE_NETWORKS =
    [mkNet ''Ethereum'' ''ETH'' ''#00f2ff'' 1 1 1 None,
     mkNet ''Solana'' ''SOL'' ''#9945FF'' (-1) (1/2) (1/2) None,
     mkNet ''Bitcoin'' ''BTC'' ''#F7931A'' 0 (-1) 1 None,
     mkNet ''BSC'' ''BNB'' ''#F3BA2F'' 1 (-1/2) (-1) None,
     mkNet ''Avalanche'' ''AVAX'' ''#E84142'' (-1) (-1) (-1) None,
     mkNet ''Polygon'' ''POL'' ''#8247E5'' (4/5) (3/10) (-1) (Some ''matic-network''),
     mkNet ''Arbitrum'' ''ARB'' ''#28A0F0'' (-1/2) 1 (-4/5) (Some ''arbitrum''),
     mkNet ''Optimism'' ''OP'' ''#FF0420'' (3/10) (-7/10) 1 (Some ''optimism''),
     mkNet ''Base'' ''ETH'' ''#0052FF'' (-9/10) (-3/10) (7/10) (Some ''ethereum''),
     mkNet ''Sui'' ''SUI'' ''#4DA2FF'' 1 (7/10) (3/10) (Some ''sui''),
     mkNet ''Cardano'' ''ADA'' ''#0033AD'' (-3/5) (4/5) (-1/2) (Some ''cardano''),
     mkNet ''Tron'' ''TRX'' ''#FF060A'' (1/2) (-1) (-1/2) (Some ''tron''),
     mkNet ''TON'' ''TON'' ''#0098EA'' (-3/10) (-1/2) (-1) (Some ''the-open-network''),
     mkNet ''Polkadot'' ''DOT'' ''#E6007A'' (7/10) (1/2) (-7/10) (Some ''polkadot''),
     mkNet ''Near'' ''NEAR'' ''#00C1DE'' (-1) (1/5) (-3/10) (Some ''near''),
     mkNet ''Fantom'' ''FTM'' ''#1969FF'' (2/5) (9/10) (3/5) (Some ''fantom''),
     mkNet ''Cosmos'' ''ATOM'' ''#6F7390'' (-4/5) (-4/5) (3/10) (Some ''cosmos''),
     mkNet ''Aptos'' ''APT'' ''#2DD8A3'' (3/5) (-2/5) (4/5) (Some ''aptos''),
     mkNet ''Cronos'' ''CRO'' ''#002D74'' (1/5) (3/5) (-1) (Some ''crypto-com-chain''),
     mkNet ''Sei'' ''SEI'' ''#9B1B30'' (-2/5) (2/5) 1 (Some ''sei-network'')]"

definition upperChar :: "char \<Rightarrow> char" where
  "upperChar c =
     (let n = (of_char c :: nat) in if 97 \<le> n \<and> n \<le> 122 then char_of (n - 32) else c)"

definition toUpperCase :: "string \<Rightarrow> string" where
  "toUpperCase s = map upperChar s"

text \<open>
  fetchAllNetworkAnalytics (services/defillama.js), the fields that loadAnalytics reads
  for the roster: the TVL found for the network and its market-data id.
\<close>

record analytics =
  an_tvl :: rat
  an_geckoId :: string

definition fetchAllNetworkAnalytics :: "world \<Rightarrow> (string \<times> analytics) list" where
  "fetchAllNetworkAnalytics w =
     (let tvlData = fetchChainTVL w
      in map (\<lambda>kv.
                let networkName = fst kv; chainInfo = snd kv;
                    direct = (case map_of tvlData networkName of
                                Some d \<Rightarrow> Some d
                              | None \<Rightarrow> map_of tvlData (defillamaName chainInfo));
                    chainData = (case direct of
                                   Some d \<Rightarrow> Some d
                                 | None \<Rightarrow>
                                     map_option fst (altNameLookup tvlData (altNames chainInfo)))
                in (networkName,
                    \<lparr>an_tvl = (case chainData of None \<Rightarrow> 0 | Some d \<Rightarrow> te_tvl d),
                     an_geckoId = ci_geckoId chainInfo\<rparr>))
             CHAIN_NAME_MAP)"

text \<open>loadAnalytics: the base roster refreshed in place, then the discovered chains.\<close>

definition updateBaseNetwork ::
    "tvl_map \<Rightarrow> (string \<times> analytics) list \<Rightarrow> network \<Rightarrow> network" where
  "updateBaseNetwork tvlData analyticsTable network =
     (let analyticsData = map_of analyticsTable (n_name network);
          chainInfo = map_of CHAIN_NAME_MAP (n_name network);
          defillamaName = orStr (map_option defillamaName chainInfo) (n_name network);
          chainTvlData = (case map_of tvlData (n_name network) of
                            Some d \<Rightarrow> Some d
                          | None \<Rightarrow> map_of tvlData defillamaName);
          fromChain = (case chainTvlData of None \<Rightarrow> 0 | Some d \<Rightarrow> te_tvl d);
          fromAnalytics = (case analyticsData of None \<Rightarrow> 0 | Some a \<Rightarrow> an_tvl a);
          rawTvl = (if fromChain \<noteq> 0 then fromChain else fromAnalytics);
          gecko = (case orNull (map_option ci_geckoId chainInfo) of
                     Some g \<Rightarrow> Some g
                   | None \<Rightarrow>
                       (case orNull (map_option an_geckoId analyticsData) of
                          Some g \<Rightarrow> Some g
                        | None \<Rightarrow> n_geckoId network))
      in network\<lparr>n_geckoId := gecko, n_rawTvl := Some rawTvl,
                 n_color := n_color network, n_pos := n_pos network\<rparr>)"

definition additionalNetworks :: "network list \<Rightarrow> listed_chain list \<Rightarrow> network list" where
  "additionalNetworks base allChains =
     foldl (\<lambda>additional chain.
              if lc_name chain \<notin> set (map n_name base) \<and> lc_tvl chain > 100000000
              then additional @
                   [\<lparr>n_name = lc_name chain,
                     n_symbol = orStr (lc_tokenSymbol chain) (toUpperCase (take 3 (lc_name chain))),
                     n_color = ColorOfName (lc_name chain),
                     n_pos = FibonacciPoint (length base + length additional) 20,
                     n_geckoId = lc_geckoId chain,
                     n_rawTvl = Some (lc_tvl chain),
                     n_marketShare = Some 0\<rparr>]
              else additional) [] allChains"

definition withMarketShare :: "rat \<Rightarrow> network \<Rightarrow> network" where
  "withMarketShare allChainTvl net =
     (let rawTvl = orZero (n_rawTvl net)
      in if allChainTvl > 0 \<and> rawTvl > 0
         then net\<lparr>n_marketShare := Some ((rawTvl / allChainTvl) * 100)\<rparr>
         else net\<lparr>n_marketShare := Some 0\<rparr>)"

text \<open>The value assigned to \<^verbatim>\<open>NETWORKS\<close> at the end of loadAnalytics.\<close>

definition loadAnalytics :: "world \<Rightarrow> network list" where
  "loadAnalytics w =
     (let analyticsTable = fetchAllNetworkAnalytics w;
          allChains = fetchAllChains w;
          tvlData = fetchChainTVL w;
          updatedBaseNetworks = map (updateBaseNetwork tvlData analyticsTable) BASE_NETWORKS;
          additional = additionalNetworks BASE_NETWORKS allChains;
          allNetworks = updatedBaseNetworks @ additional;
          allChainTvl = foldl (\<lambda>acc kv. acc + te_tvl (snd kv)) 0 tvlData
      in map (withMarketShare allChainTvl) allNetworks)"

section \<open>The composite snapshot and its cache (App.js)\<close>

text \<open>
  The liquidity lookup written out in StatsCard and again in preFetchNetworkData: the
  per-chain aggregation first, the token search when that gives nothing positive. The
  module exports \<^verbatim>\<open>DEXSCREENER_CHAIN_MAP\<close> and fetchChainTotalLiquidity, so the inline
  table and the test for the function in preFetchNetworkData never take their other branch.
\<close>

definition searchFallback :: "pair_row list option option \<Rightarrow> liquidity option" where
  "searchFallback searchResult =
     (case searchResult of
        Some (Some pairs) \<Rightarrow>
          if length pairs > 0
          then (let acc = sumLiquidity (take 10 pairs)
                in if acc > 0 then Some \<lparr>totalLiquidity = acc, pairCount = length pairs\<rparr>
                   else None)
          else None
      | _ \<Rightarrow> None)"

definition lookupLiquidity :: "world \<Rightarrow> network \<Rightarrow> liquidity option" where
  "lookupLiquidity w network =
     (let chainId = dexChainId (n_name network);
          liquidityData = fetchChainTotalLiquidity w chainId;
          direct = (case liquidityData of
                      Some l \<Rightarrow> if totalLiquidity l > 0 then Some l else None
                    | None \<Rightarrow> None)
      in case direct of
           Some l \<Rightarrow> Some \<lparr>totalLiquidity = totalLiquidity l, pairCount = pairCount l\<rparr>
         | None \<Rightarrow>
             searchFallback (searchTokens w (orStr (Some (n_symbol network)) (n_name network))))"

record snapshot =
  detailedData :: "details option"
  priceData :: "coin_data option"
  historicalData :: "(rat \<times> rat) list option"
  dexScreenerData :: "liquidity option"
  stablecoinData :: "rat option"
  yieldData :: "yield_stats option"
  topYields :: "top_yield list option"
  fearGreedData :: "fng_result option"
  fetchedAt :: int

record services =
  sv_stable :: stable_state
  sv_yields :: yields_state
  sv_fng :: fng_state

record fetched =
  f_defillama :: details
  f_coingecko :: "coin_data option settled"
  f_historical :: "(rat \<times> rat) list option"
  f_dexscreener :: "liquidity option"
  f_stablecoin :: "rat option"
  f_yield :: "yield_stats option"
  f_topYields :: "top_yield list"
  f_fearGreed :: "fng_result option"

text \<open>
  The eight provider calls of one build. They are started together, so each reads the
  bulk caches as they are at the start; the two yield calls download the same pool list.
  Only fetchNetworkCoinData can be rejected; the other clients end in their own handlers.
\<close>

definition providerCalls :: "world \<Rightarrow> int \<Rightarrow> services \<Rightarrow> network \<Rightarrow> fetched \<times> services" where
  "providerCalls w now sv network =
     (let stable = fetchChainStablecoinTVL w now (sv_stable sv) (n_name network);
          yieldStats = fetchChainYieldStats w now (sv_yields sv) (n_name network);
          topY = fetchChainTopYields w now (sv_yields sv) (n_name network) 3;
          fearGreed = fetchFearGreedIndex w now (sv_fng sv)
      in (\<lparr>f_defillama = fetchNetworkDetails w (n_name network),
           f_coingecko = fetchNetworkCoinData w (n_name network) (n_geckoId network),
           f_historical = (case orNull (n_geckoId network) of
                             None \<Rightarrow> None
                           | Some g \<Rightarrow> fetchHistoricalPrice w g),
           f_dexscreener = lookupLiquidity w network,
           f_stablecoin = fst stable,
           f_yield = fst yieldStats,
           f_topYields = fst topY,
           f_fearGreed = fst fearGreed\<rparr>,
          \<lparr>sv_stable = snd stable, sv_yields = snd topY, sv_fng = snd fearGreed\<rparr>))"

text \<open>
  The cache is a map from network name to an object; objects live in a heap that only
  grows, and a reference is an index into it, so that \<^verbatim>\<open>===\<close> is equality of references.
\<close>

record app_state =
  heap :: "snapshot list"
  networkDataCache :: "string \<Rightarrow> nat option"
  services :: services

definition storeSnapshot :: "string \<Rightarrow> snapshot \<Rightarrow> app_state \<Rightarrow> nat \<times> app_state" where
  "storeSnapshot cacheKey snap st =
     (let r = length (heap st)
      in (r, st\<lparr>heap := heap st @ [snap],
                networkDataCache := (networkDataCache st)(cacheKey \<mapsto> r)\<rparr>))"

definition settledOr :: "'a \<Rightarrow> 'a settled \<Rightarrow> 'a" where
  "settledOr dflt s = (case s of Fulfilled v \<Rightarrow> v | Rejected \<Rightarrow> dflt)"

text \<open>The object stored by preFetchNetworkData from the eight settled outcomes.\<close>

definition assembleSettled ::
    "details settled \<Rightarrow> coin_data option settled \<Rightarrow> (rat \<times> rat) list option settled \<Rightarrow>
     liquidity option settled \<Rightarrow> rat option settled \<Rightarrow> yield_stats option settled \<Rightarrow>
     top_yield list settled \<Rightarrow> fng_result option settled \<Rightarrow> int \<Rightarrow> snapshot" where
  "assembleSettled defillamaData coingeckoData historical dexscreenerData stablecoin
       yield topYieldsData fearGreed stamp =
     \<lparr>detailedData = (case defillamaData of Fulfilled d \<Rightarrow> Some d | Rejected \<Rightarrow> None),
      priceData = settledOr None coingeckoData,
      historicalData = settledOr None historical,
      dexScreenerData = settledOr None dexscreenerData,
      stablecoinData = settledOr (Some 0) stablecoin,
      yieldData = settledOr None yield,
      topYields = (case topYieldsData of Fulfilled l \<Rightarrow> Some l | Rejected \<Rightarrow> None),
      fearGreedData = settledOr None fearGreed,
      fetchedAt = stamp\<rparr>"

text \<open>
  The body that preFetchNetworkData runs for one network, started at \<open>now\<close> and settled
  \<open>elapsed\<close> milliseconds later. The service modules are part of the bundle and load.
\<close>

definition preFetchNetwork :: "world \<Rightarrow> int \<Rightarrow> nat \<Rightarrow> network \<Rightarrow> app_state \<Rightarrow> app_state" where
  "preFetchNetwork w now elapsed network st =
     (let r = providerCalls w now (services st) network;
          f = fst r;
          snap = assembleSettled (Fulfilled (f_defillama f)) (f_coingecko f)
                   (Fulfilled (f_historical f)) (Fulfilled (f_dexscreener f))
                   (Fulfilled (f_stablecoin f)) (Fulfilled (f_yield f))
                   (Fulfilled (f_topYields f)) (Fulfilled (f_fearGreed f))
                   (now + int elapsed)
      in snd (storeSnapshot (n_name network) snap (st\<lparr>services := snd r\<rparr>)))"

text \<open>
  The effect of StatsCard for a selected network: the cache check, and on a miss the
  fetch whose \<^verbatim>\<open>then\<close> callback stores a new object; a rejected market-data promise is
  turned into null by its \<^verbatim>\<open>catch\<close>. The component's view state is not modelled; the
  result is the reference of the object whose data the card shows.
\<close>

definition CACHE_MAX_AGE :: int where
  "CACHE_MAX_AGE = 5 * 60 * 1000"

datatype lookup = CacheHit nat | CacheMiss

definition statsCardLookup :: "int \<Rightarrow> network \<Rightarrow> app_state \<Rightarrow> lookup" where
  "statsCardLookup now network st =
     (case networkDataCache st (n_name network) of
        None \<Rightarrow> CacheMiss
      | Some r \<Rightarrow>
          if r < length (heap st) \<and> now - fetchedAt (heap st ! r) < CACHE_MAX_AGE
          then CacheHit r else CacheMiss)"

definition statsCardThen ::
    "world \<Rightarrow> int \<Rightarrow> int \<Rightarrow> network \<Rightarrow> app_state \<Rightarrow> nat \<times> app_state" where
  "statsCardThen w started finished network st =
     (let r = providerCalls w started (services st) network;
          f = fst r;
          snap = \<lparr>detailedData = Some (f_defillama f),
                  priceData = settledOr None (f_coingecko f),
                  historicalData = f_historical f,
                  dexScreenerData = f_dexscreener f,
                  stablecoinData = f_stablecoin f,
                  yieldData = f_yield f,
                  topYields = Some (f_topYields f),
                  fearGreedData = f_fearGreed f,
                  fetchedAt = finished\<rparr>
      in storeSnapshot (n_name network) snap (st\<lparr>services := snd r\<rparr>))"

definition statsCardEffect ::
    "world \<Rightarrow> int \<Rightarrow> nat \<Rightarrow> network \<Rightarrow> app_state \<Rightarrow> nat \<times> app_state" where
  "statsCardEffect w now elapsed network st =
     (case statsCardLookup now network st of
        CacheHit r \<Rightarrow> (r, st)
      | CacheMiss \<Rightarrow> statsCardThen w now (now + int elapsed) network st)"

section \<open>Requests interleaved on the event loop\<close>

text \<open>
  The effect of StatsCard runs in two turns of the event loop: the cache check when a
  network is selected, and the \<^verbatim>\<open>then\<close> callback when its fetch settles. \<open>sc_inflight\<close>
  holds the fetches that have started and not settled, \<open>sc_issued\<close> the name of the entity
  of every refresh started so far. The provider answers are read when the fetch settles.
\<close>

record sched =
  sc_app :: app_state
  sc_inflight :: "(network \<times> int) list"
  sc_issued :: "string list"

datatype event = Select network int | Settle nat int

fun step :: "world \<Rightarrow> sched \<Rightarrow> event \<Rightarrow> sched" where
  "step w sc (Select network now) =
     (case statsCardLookup now network (sc_app sc) of
        CacheHit r \<Rightarrow> sc
      | CacheMiss \<Rightarrow>
          sc\<lparr>sc_inflight := sc_inflight sc @ [(network, now)],
             sc_issued := sc_issued sc @ [n_name network]\<rparr>)"
| "step w sc (Settle i finished) =
     (if i < length (sc_inflight sc)
      then (let p = sc_inflight sc ! i
            in sc\<lparr>sc_app := snd (statsCardThen w (snd p) finished (fst p) (sc_app sc)),
                  sc_inflight := take i (sc_inflight sc) @ drop (Suc i) (sc_inflight sc)\<rparr>)
      else sc)"

definition run :: "world \<Rightarrow> sched \<Rightarrow> event list \<Rightarrow> sched" where
  "run w sc evs = foldl (step w) sc evs"

section \<open>Vocabulary of the statements\<close>

text \<open>
  Predicates for the statements about a build in which every provider call is made and
  fails: every endpoint answers with an error, and no bulk cache holds a fresh payload
  at the time of the call. \<open>cachedSnapshot\<close> is \<^verbatim>\<open>networkDataCache.get\<close> followed by the
  object itself; \<open>hasDefaults\<close> lists the documented defaults of the composite snapshot.
\<close>

fun failed :: "'a response \<Rightarrow> bool" where
  "failed (Ok _) = False"
| "failed _ = True"

definition allProvidersFail :: "world \<Rightarrow> bool" where
  "allProvidersFail w =
     (failed (w_chains w) \<and> failed (w_protocols w) \<and> (\<forall>k. failed (w_dexs w k)) \<and>
      (\<forall>k. failed (w_fees w k)) \<and> (\<forall>k. failed (w_bridges w k)) \<and>
      (\<forall>k. failed (w_historicalChainTvl w k)) \<and> (\<forall>k. failed (w_coins w k)) \<and>
      (\<forall>k. failed (w_market_chart w k)) \<and> (\<forall>k. failed (w_pairs w k)) \<and>
      (\<forall>k. failed (w_search w k)) \<and> failed (w_stablecoinchains w) \<and>
      failed (w_pools w) \<and> failed (w_fng w))"

definition bulkCachesMiss :: "int \<Rightarrow> services \<Rightarrow> bool" where
  "bulkCachesMiss now sv =
     (\<not> (stablecoinChainsCache (sv_stable sv) \<noteq> None \<and>
         now - stablecoinCacheTime (sv_stable sv) < STABLECOIN_CACHE_TTL) \<and>
      \<not> (poolsCache (sv_yields sv) \<noteq> None \<and>
         now - poolsCacheTime (sv_yields sv) < YIELDS_CACHE_TTL) \<and>
      \<not> (fngCache (sv_fng sv) \<noteq> None \<and> now - fngCacheTime (sv_fng sv) < FNG_CACHE_TTL))"

definition cachedSnapshot :: "app_state \<Rightarrow> string \<Rightarrow> snapshot option" where
  "cachedSnapshot st cacheKey =
     (case networkDataCache st cacheKey of
        None \<Rightarrow> None
      | Some r \<Rightarrow> if r < length (heap st) then Some (heap st ! r) else None)"

definition hasDefaults :: "snapshot \<Rightarrow> bool" where
  "hasDefaults snap =
     (map_option d_tvl (detailedData snap) = Some 0 \<and> priceData snap = None \<and>
      dexScreenerData snap = None \<and> stablecoinData snap = Some 0 \<and> yieldData snap = None \<and>
      fearGreedData snap = None)"



text \<open>
  The wording of the specification for the search fallback: the ten pairs of highest
  liquidity, against which the first ten pairs that the code takes are compared.
\<close>

definition tenHighestLiquidity :: "pair_row list \<Rightarrow> pair_row list" where
  "tenHighestLiquidity pairs = take 10 (sort_key (\<lambda>p. - orZero (liquidity_usd p)) pairs)"

section \<open>Example inputs\<close>

text \<open>Concrete values at which the properties below are instantiated.\<close>

definition tvlSample :: tvl_map where
  "tvlSample = [(''Ethereum'', \<lparr>te_tvl = 30, te_tokenSymbol = None, te_geckoId = None\<rparr>),
                (''BSC'', \<lparr>te_tvl = 10, te_tokenSymbol = None, te_geckoId = None\<rparr>)]"

definition deadWorld :: world where
  "deadWorld =
     \<lparr>w_chains = NetworkError, w_protocols = HttpError,
      w_dexs = (\<lambda>_. HttpError), w_fees = (\<lambda>_. HttpError),
      w_bridges = (\<lambda>_. NetworkError), w_historicalChainTvl = (\<lambda>_. HttpError),
      w_coins = (\<lambda>_. NetworkError), w_market_chart = (\<lambda>_. NetworkError),
      w_pairs = (\<lambda>_. HttpError), w_search = (\<lambda>_. NetworkError),
      w_stablecoinchains = NetworkError, w_pools = HttpError, w_fng = NetworkError\<rparr>"

definition ethereumNet :: network where
  "ethereumNet = mkNet ''Ethereum'' ''ETH'' ''#00f2ff'' 1 1 1 None"

definition samplePairs :: "pair_row list" where
  "samplePairs = replicate 10 \<lparr>liquidity_usd = Some 1\<rparr> @ [\<lparr>liquidity_usd = Some 1000\<rparr>]"

definition searchWorld :: world where
  "searchWorld = deadWorld\<lparr>w_search := (\<lambda>_. Ok (Some samplePairs))\<rparr>"

definition coldYields :: yields_state where
  "coldYields = \<lparr>poolsCache = None, poolsCacheTime = 0\<rparr>"

definition coldStable :: stable_state where
  "coldStable = \<lparr>stablecoinChainsCache = None, stablecoinCacheTime = 0\<rparr>"

definition coldFng :: fng_state where
  "coldFng = \<lparr>fngCache = None, fngCacheTime = 0\<rparr>"

definition warmYields :: yields_state where
  "warmYields = \<lparr>poolsCache = Some [], poolsCacheTime = 1000\<rparr>"

definition samplePool :: pool_row where
  "samplePool =
     \<lparr>pl_pool = ''p1'', pl_project = ''lido'', pl_symbol = ''STETH'',
      pl_chain = Some ''Ethereum'', pl_tvlUsd = Some 5000000, pl_apy = Some 3,
      pl_apyBase = Some 3, pl_apyReward = None, pl_stablecoin = Some False\<rparr>"

definition poolsWorld :: world where
  "poolsWorld = deadWorld\<lparr>w_pools := Ok (Some [samplePool])\<rparr>"

definition coldServices :: services where
  "coldServices = \<lparr>sv_stable = coldStable, sv_yields = coldYields, sv_fng = coldFng\<rparr>"

definition initState :: app_state where
  "initState = \<lparr>heap = [], networkDataCache = Map.empty, services = coldServices\<rparr>"

definition sched0 :: sched where
  "sched0 = \<lparr>sc_app = initState, sc_inflight = [], sc_issued = []\<rparr>"



definition listingWorld :: world where
  "listingWorld =
     deadWorld\<lparr>w_chains :=
       Ok [\<lparr>cr_name = ''Tiny'', cr_tvl = Some 50000000, cr_tokenSymbol = None,
            cr_gecko_id = None\<rparr>,
           \<lparr>cr_name = ''Ethereum'', cr_tvl = Some 52000000000, cr_tokenSymbol = Some ''ETH'',
            cr_gecko_id = Some ''ethereum''\<rparr>,
           \<lparr>cr_name = ''Mantle'', cr_tvl = Some 200000000, cr_tokenSymbol = Some ''MNT'',
            cr_gecko_id = Some ''mantle''\<rparr>]\<rparr>"

definition mantleNet :: network where
  "mantleNet =
     \<lparr>n_name = ''Mantle'', n_symbol = ''MNT'', n_color = ColorOfName ''Mantle'',
      n_pos = FibonacciPoint 20 20, n_geckoId = Some ''mantle'',
      n_rawTvl = Some 200000000, n_marketShare = Some (200000000 / 52250000000 * 100)\<rparr>"

definition newChainWorld :: world where
  "newChainWorld =
     deadWorld\<lparr>w_historicalChainTvl :=
                 (\<lambda>_. Ok [\<lparr>h_date = Some 1700000000, h_tvl = Some 0\<rparr>,
                           \<lparr>h_date = Some 1700086400, h_tvl = Some 100\<rparr>]),
               w_fng :=
                 Ok (Some [\<lparr>fr_value = None, fr_value_classification = Some ''Fear'',
                            fr_timestamp = Some ''1700086400''\<rparr>])\<rparr>"

section \<open>Properties of identity resolution\<close>

lemma CHAIN_NAME_MAP_entries:
  "list_all (\<lambda>kv. fst kv \<noteq> [] \<and> defillamaName (snd kv) \<noteq> [] \<and>
                 \<not> inheritedName (fst kv) \<and> \<not> inheritedName (defillamaName (snd kv)))
     CHAIN_NAME_MAP"
  by code_simp

lemma CHAIN_NAME_MAP_altNames:
  "list_all (\<lambda>kv. list_all (\<lambda>altName. \<not> inheritedName altName) (altNames (snd kv)))
     CHAIN_NAME_MAP"
  by code_simp

lemma CHAIN_NAME_MAP_ordinary:
  assumes "map_of CHAIN_NAME_MAP n = Some ci"
  shows "n \<noteq> [] \<and> defillamaName ci \<noteq> [] \<and> \<not> inheritedName n \<and>
         \<not> inheritedName (defillamaName ci)"
proof -
  have "(n, ci) \<in> set CHAIN_NAME_MAP"
    using assms by (rule map_of_SomeD)
  then show ?thesis
    using CHAIN_NAME_MAP_entries by (auto simp: list_all_iff)
qed

lemma CHAIN_NAME_MAP_nonempty:
  "map_of CHAIN_NAME_MAP n = Some ci \<Longrightarrow> defillamaName ci \<noteq> []"
  by (simp add: CHAIN_NAME_MAP_ordinary)

lemma DEXSCREENER_nonempty:
  "map_of DEXSCREENER_CHAIN_MAP n = Some c \<Longrightarrow> c \<noteq> []"
  by (auto simp: DEXSCREENER_CHAIN_MAP_def split: if_splits)

lemma COINGECKO_nonempty:
  "map_of COINGECKO_IDS n = Some c \<Longrightarrow> c \<noteq> []"
  by (auto simp: COINGECKO_IDS_def split: if_splits)

lemma find_no_match:
  "\<forall>k \<in> set ks. \<not> P k \<Longrightarrow> find P ks = None"
  by (induction ks) auto

lemma find_first_match:
  "find P ks = Some m \<Longrightarrow> m \<in> set ks \<and> P m"
  by (induction ks) (auto split: if_splits)

lemma toLowerCase_Nil [simp]: "toLowerCase s = [] \<longleftrightarrow> s = []"
  by (simp add: toLowerCase_def)

lemma getProp_Own: "map_of obj k = Some v \<Longrightarrow> getProp obj k = Own v"
  by (simp add: getProp_def)

lemma getProp_ordinary:
  "\<not> inheritedName k \<Longrightarrow>
   getProp obj k = (case map_of obj k of Some v \<Rightarrow> Own v | None \<Rightarrow> Absent)"
  by (simp add: getProp_def split: option.splits)

lemma getProp_Absent_iff:
  "getProp obj k = Absent \<longleftrightarrow> map_of obj k = None \<and> \<not> inheritedName k"
  by (simp add: getProp_def split: option.splits)

lemma defillamaChainName_eq:
  "defillamaChainName n =
     (case map_of CHAIN_NAME_MAP n of Some ci \<Rightarrow> defillamaName ci | None \<Rightarrow> n)"
  by (auto simp: defillamaChainName_def orStr_def dest: CHAIN_NAME_MAP_nonempty
           split: option.splits)

lemma protocolsChainName_eq:
  "protocolsChainName tvl n =
     (case map_of CHAIN_NAME_MAP n of
        Some ci \<Rightarrow> defillamaName ci
      | None \<Rightarrow>
          if inheritedName n \<or> n \<in> fst ` set tvl then n
          else (case find (\<lambda>key. toLowerCase key = toLowerCase n) (map fst tvl) of
                  Some m \<Rightarrow> m | None \<Rightarrow> n))"
proof (cases "map_of CHAIN_NAME_MAP n")
  case None
  show ?thesis
  proof (cases "inheritedName n")
    case True
    with None show ?thesis
      by (simp add: protocolsChainName_def getProp_def)
  next
    case False
    have key: "(getProp tvl n \<noteq> Absent) = (n \<in> fst ` set tvl)"
      using False by (simp add: getProp_Absent_iff map_of_eq_None_iff)
    have info: "getProp CHAIN_NAME_MAP n = Absent"
      using None False by (simp add: getProp_def)
    show ?thesis
    proof (cases "find (\<lambda>key. toLowerCase key = toLowerCase n) (map fst tvl)")
      case NoMatch: None
      show ?thesis
        unfolding protocolsChainName_def info key using None NoMatch False by simp
    next
      case (Some m)
      then have "toLowerCase m = toLowerCase n"
        using find_first_match by fastforce
      then have "m = [] \<Longrightarrow> n = []"
        by (metis toLowerCase_Nil)
      then show ?thesis
        unfolding protocolsChainName_def info key using None Some False by auto
    qed
  qed
next
  case (Some ci)
  then show ?thesis
    by (simp add: protocolsChainName_def orStr_def getProp_Own CHAIN_NAME_MAP_nonempty)
qed

lemma findChainData_unknown:
  assumes "map_of CHAIN_NAME_MAP n = None"
    and "\<forall>k \<in> fst ` set tvl. toLowerCase k \<noteq> toLowerCase n"
  shows "findChainData tvl n = (None, n)"
proof -
  have notin: "map_of tvl n = None"
    using assms(2) by (auto simp: map_of_eq_None_iff)
  have nf: "find (\<lambda>key. toLowerCase key = toLowerCase n \<or> toLowerCase key = toLowerCase n)
              (map fst tvl) = None"
    using assms(2) by (intro find_no_match) auto
  show ?thesis
    using assms(1) notin nf
    by (simp add: findChainData_def getProp_def orStr_def Let_def)
qed

lemma findChainData_mapped:
  assumes "map_of CHAIN_NAME_MAP n = Some ci"
  shows "findChainData tvl n =
     (case map_of tvl n of
        Some d \<Rightarrow> (Some d, defillamaName ci)
      | None \<Rightarrow>
          (case map_of tvl (defillamaName ci) of
             Some d \<Rightarrow> (Some d, defillamaName ci)
           | None \<Rightarrow>
               (case altNameLookup tvl (altNames ci) of
                  Some (d, altName) \<Rightarrow> (Some d, altName)
                | None \<Rightarrow>
                    (case find (\<lambda>key. toLowerCase key = toLowerCase n \<or>
                                      toLowerCase key = toLowerCase (defillamaName ci))
                               (map fst tvl) of
                       Some m \<Rightarrow> (map_of tvl m, m)
                     | None \<Rightarrow> (None, defillamaName ci)))))"
proof -
  note ord = CHAIN_NAME_MAP_ordinary[OF assms]
  have name0: "orStr (map_option defillamaName (map_of CHAIN_NAME_MAP n)) n = defillamaName ci"
    using assms ord by (simp add: orStr_def)
  have g1: "getProp tvl n = (case map_of tvl n of Some v \<Rightarrow> Own v | None \<Rightarrow> Absent)"
    using ord by (simp add: getProp_ordinary)
  have g2: "getProp tvl (defillamaName ci) =
              (case map_of tvl (defillamaName ci) of Some v \<Rightarrow> Own v | None \<Rightarrow> Absent)"
    using ord by (simp add: getProp_ordinary)
  have nonempty: "m \<noteq> []"
    if "find (\<lambda>key. toLowerCase key = toLowerCase n \<or>
                     toLowerCase key = toLowerCase (defillamaName ci)) (map fst tvl) = Some m"
    for m
  proof
    assume "m = []"
    with find_first_match[OF that]
    have "toLowerCase n = [] \<or> toLowerCase (defillamaName ci) = []"
      by (auto simp: toLowerCase_def)
    with ord show False by simp
  qed
  show ?thesis
    unfolding findChainData_def Let_def name0 g1 g2 using assms nonempty
    by (auto split: option.splits)
qed

lemma dexChainId_eq:
  "\<not> inheritedName n \<Longrightarrow>
   dexChainId n =
     (case map_of DEXSCREENER_CHAIN_MAP n of
        Some c \<Rightarrow> ChainId c | None \<Rightarrow> ChainId (toLowerCase n))"
  by (auto simp: dexChainId_def getProp_ordinary dest: DEXSCREENER_nonempty split: option.splits)

lemma getCoinGeckoId_eq:
  "\<not> inheritedName n \<Longrightarrow>
   getCoinGeckoId n = (case map_of COINGECKO_IDS n of Some c \<Rightarrow> Own c | None \<Rightarrow> Absent)"
  by (auto simp: getCoinGeckoId_def getProp_ordinary dest: COINGECKO_nonempty
           split: option.splits)

lemma stablecoinOf_eq:
  assumes "\<not> inheritedName n"
  shows "stablecoinOf chainMap n =
     (case map_of chainMap n of
        Some d \<Rightarrow> Some (totalCirculatingUSD d)
      | None \<Rightarrow>
          (case find (\<lambda>k. toLowerCase k = toLowerCase n) (map fst chainMap) of
             Some key \<Rightarrow> (case map_of chainMap key of
                             Some d \<Rightarrow> Some (totalCirculatingUSD d) | None \<Rightarrow> Some 0)
           | None \<Rightarrow> Some 0))"
proof (cases "find (\<lambda>k. toLowerCase k = toLowerCase n) (map fst chainMap)")
  case None
  then show ?thesis
    using assms by (simp add: stablecoinOf_def getProp_ordinary Let_def split: option.splits)
next
  case (Some key)
  then have "toLowerCase key = toLowerCase n"
    using find_first_match by fastforce
  then have "key = [] \<Longrightarrow> n = []"
    by (metis toLowerCase_Nil)
  with Some assms show ?thesis
    by (auto simp: stablecoinOf_def getProp_ordinary Let_def split: option.splits)
qed

lemma coinData_not_rejected:
  "\<not> inheritedName n \<Longrightarrow> fetchNetworkCoinData w n g \<noteq> Rejected"
  by (auto simp: fetchNetworkCoinData_def getCoinGeckoId_eq Let_def
           split: option.splits property.splits)

text \<open>
  C4 (as amended). Every resolution is a total function of the name, and for a name
  that is not an inherited property name none of them throws. For the registry provider
  the per-chain endpoints and fetchChainProtocols take the \<open>defillamaName\<close> of the
  \<^verbatim>\<open>CHAIN_NAME_MAP\<close> entry when there is one; without an entry fetchChainProtocols takes
  the name when it is a key of the chain listing, else the first key equal to it up to
  case, else the name itself. fetchNetworkDetails, for a name with an entry, keeps the
  \<open>defillamaName\<close> when the listing has data under the name or under it, else takes the
  first alternative name that has data, else the first key equal to the name or to the
  \<open>defillamaName\<close> up to case, else the \<open>defillamaName\<close>. A name with no entry and no key
  equal to it up to case resolves to itself in both. For a name that is not an inherited
  property name: the liquidity provider takes the table entry, else the lower-case form
  of the name; the market-data provider takes the table entry, else no id; the
  stablecoin provider reads the entry under the name, else under the first key equal to
  it up to case, else gives 0.
\<close>

theorem identity_resolution:
  "defillamaChainName n =
     (case map_of CHAIN_NAME_MAP n of Some ci \<Rightarrow> defillamaName ci | None \<Rightarrow> n)
   \<and> protocolsChainName tvl n =
     (case map_of CHAIN_NAME_MAP n of
        Some ci \<Rightarrow> defillamaName ci
      | None \<Rightarrow>
          if inheritedName n \<or> n \<in> fst ` set tvl then n
          else (case find (\<lambda>key. toLowerCase key = toLowerCase n) (map fst tvl) of
                  Some m \<Rightarrow> m | None \<Rightarrow> n))
   \<and> (map_of CHAIN_NAME_MAP n = None \<and>
        (\<forall>k \<in> fst ` set tvl. toLowerCase k \<noteq> toLowerCase n) \<longrightarrow>
          protocolsChainName tvl n = n \<and> findChainData tvl n = (None, n))
   \<and> (map_of CHAIN_NAME_MAP n = Some ci \<longrightarrow>
        findChainData tvl n =
          (case map_of tvl n of
             Some d \<Rightarrow> (Some d, defillamaName ci)
           | None \<Rightarrow>
               (case map_of tvl (defillamaName ci) of
                  Some d \<Rightarrow> (Some d, defillamaName ci)
                | None \<Rightarrow>
                    (case altNameLookup tvl (altNames ci) of
                       Some (d, altName) \<Rightarrow> (Some d, altName)
                     | None \<Rightarrow>
                         (case find (\<lambda>key. toLowerCase key = toLowerCase n \<or>
                                           toLowerCase key = toLowerCase (defillamaName ci))
                                    (map fst tvl) of
                            Some m \<Rightarrow> (map_of tvl m, m)
                          | None \<Rightarrow> (None, defillamaName ci))))))
   \<and> (\<not> inheritedName n \<longrightarrow>
        dexChainId n =
          (case map_of DEXSCREENER_CHAIN_MAP n of
             Some c \<Rightarrow> ChainId c | None \<Rightarrow> ChainId (toLowerCase n))
        \<and> getCoinGeckoId n =
          (case map_of COINGECKO_IDS n of Some c \<Rightarrow> Own c | None \<Rightarrow> Absent)
        \<and> fetchNetworkCoinData w n g \<noteq> Rejected
        \<and> stablecoinOf chainMap n =
          (case map_of chainMap n of
             Some d \<Rightarrow> Some (totalCirculatingUSD d)
           | None \<Rightarrow>
               (case find (\<lambda>k. toLowerCase k = toLowerCase n) (map fst chainMap) of
                  Some key \<Rightarrow> (case map_of chainMap key of
                                  Some d \<Rightarrow> Some (totalCirculatingUSD d)
                                | None \<Rightarrow> Some 0)
                | None \<Rightarrow> Some 0)))"
proof -
  have unk: "map_of CHAIN_NAME_MAP n = None \<and>
        (\<forall>k \<in> fst ` set tvl. toLowerCase k \<noteq> toLowerCase n) \<longrightarrow>
          protocolsChainName tvl n = n \<and> findChainData tvl n = (None, n)"
  proof (intro impI, elim conjE)
    assume a: "map_of CHAIN_NAME_MAP n = None"
      and b: "\<forall>k \<in> fst ` set tvl. toLowerCase k \<noteq> toLowerCase n"
    have "n \<notin> fst ` set tvl" using b by blast
    moreover have "find (\<lambda>key. toLowerCase key = toLowerCase n) (map fst tvl) = None"
      using b by (intro find_no_match) auto
    ultimately have "protocolsChainName tvl n = n"
      using a by (simp add: protocolsChainName_eq)
    then show "protocolsChainName tvl n = n \<and> findChainData tvl n = (None, n)"
      using findChainData_unknown[OF a b] by simp
  qed
  have mapped: "map_of CHAIN_NAME_MAP n = Some ci \<longrightarrow>
        findChainData tvl n =
          (case map_of tvl n of
             Some d \<Rightarrow> (Some d, defillamaName ci)
           | None \<Rightarrow>
               (case map_of tvl (defillamaName ci) of
                  Some d \<Rightarrow> (Some d, defillamaName ci)
                | None \<Rightarrow>
                    (case altNameLookup tvl (altNames ci) of
                       Some (d, altName) \<Rightarrow> (Some d, altName)
                     | None \<Rightarrow>
                         (case find (\<lambda>key. toLowerCase key = toLowerCase n \<or>
                                           toLowerCase key = toLowerCase (defillamaName ci))
                                    (map fst tvl) of
                            Some m \<Rightarrow> (map_of tvl m, m)
                          | None \<Rightarrow> (None, defillamaName ci)))))"
    by (rule impI) (rule findChainData_mapped)
  have ordinary: "\<not> inheritedName n \<longrightarrow>
        dexChainId n =
          (case map_of DEXSCREENER_CHAIN_MAP n of
             Some c \<Rightarrow> ChainId c | None \<Rightarrow> ChainId (toLowerCase n))
        \<and> getCoinGeckoId n =
          (case map_of COINGECKO_IDS n of Some c \<Rightarrow> Own c | None \<Rightarrow> Absent)
        \<and> fetchNetworkCoinData w n g \<noteq> Rejected
        \<and> stablecoinOf chainMap n =
          (case map_of chainMap n of
             Some d \<Rightarrow> Some (totalCirculatingUSD d)
           | None \<Rightarrow>
               (case find (\<lambda>k. toLowerCase k = toLowerCase n) (map fst chainMap) of
                  Some key \<Rightarrow> (case map_of chainMap key of
                                  Some d \<Rightarrow> Some (totalCirculatingUSD d)
                                | None \<Rightarrow> Some 0)
                | None \<Rightarrow> Some 0))"
  proof (rule impI)
    assume o: "\<not> inheritedName n"
    show "dexChainId n =
          (case map_of DEXSCREENER_CHAIN_MAP n of
             Some c \<Rightarrow> ChainId c | None \<Rightarrow> ChainId (toLowerCase n))
        \<and> getCoinGeckoId n =
          (case map_of COINGECKO_IDS n of Some c \<Rightarrow> Own c | None \<Rightarrow> Absent)
        \<and> fetchNetworkCoinData w n g \<noteq> Rejected
        \<and> stablecoinOf chainMap n =
          (case map_of chainMap n of
             Some d \<Rightarrow> Some (totalCirculatingUSD d)
           | None \<Rightarrow>
               (case find (\<lambda>k. toLowerCase k = toLowerCase n) (map fst chainMap) of
                  Some key \<Rightarrow> (case map_of chainMap key of
                                  Some d \<Rightarrow> Some (totalCirculatingUSD d)
                                | None \<Rightarrow> Some 0)
                | None \<Rightarrow> Some 0))"
      by (rule conjI[OF dexChainId_eq[OF o] conjI[OF getCoinGeckoId_eq[OF o]
            conjI[OF coinData_not_rejected[OF o] stablecoinOf_eq[OF o]]]])
  qed
  show ?thesis
    by (rule conjI[OF defillamaChainName_eq conjI[OF protocolsChainName_eq
          conjI[OF unk conjI[OF mapped ordinary]]]])
qed

theorem identity_resolution_witness:
  "map_of CHAIN_NAME_MAP ''Mantle'' = None
   \<and> toLowerCase ''ethereum'' \<noteq> toLowerCase ''Mantle''
   \<and> protocolsChainName [(''ethereum'', ())] ''Mantle'' = ''Mantle''
   \<and> findChainData [(''ethereum'', ())] ''Mantle'' = (None, ''Mantle'')
   \<and> inheritedName ''Mantle'' = False
   \<and> dexChainId ''Mantle'' = ChainId (toLowerCase ''Mantle'')
   \<and> fetchNetworkCoinData deadWorld ''Mantle'' None \<noteq> Rejected"
proof -
  have a: "map_of CHAIN_NAME_MAP ''Mantle'' = None"
    by code_simp
  have b0: "toLowerCase ''ethereum'' \<noteq> toLowerCase ''Mantle''"
    by (simp add: toLowerCase_def)
  have b: "\<forall>k \<in> fst ` set [(''ethereum'', ())]. toLowerCase k \<noteq> toLowerCase ''Mantle''"
    using b0 by simp
  have o: "inheritedName ''Mantle'' = False"
    by code_simp
  have o': "\<not> inheritedName ''Mantle''"
    using o by simp
  have d: "map_of DEXSCREENER_CHAIN_MAP ''Mantle'' = None"
    by code_simp
  note t = identity_resolution[where n = "''Mantle''" and tvl = "[(''ethereum'', ())]"
      and w = deadWorld and g = None]
  note c = mp[OF t[THEN conjunct2, THEN conjunct2, THEN conjunct1] conjI[OF a b]]
  note r = mp[OF t[THEN conjunct2, THEN conjunct2, THEN conjunct2, THEN conjunct2] o']
  have dx: "dexChainId ''Mantle'' = ChainId (toLowerCase ''Mantle'')"
    using r[THEN conjunct1] by (simp only: d option.case)
  note nr = r[THEN conjunct2, THEN conjunct2, THEN conjunct1]
  show ?thesis
    by (rule conjI[OF a conjI[OF b0 conjI[OF c[THEN conjunct1] conjI[OF c[THEN conjunct2]
          conjI[OF o conjI[OF dx nr]]]]]])
qed

text \<open>
  C4 as stated fails for the liquidity and market-data providers: a name without a table
  entry does not resolve to itself there. And a name that a plain object inherits, such
  as \<^verbatim>\<open>constructor\<close>, is found in the market-data table as the inherited function, on
  which fetchNetworkCoinData calls \<^verbatim>\<open>trim\<close> outside its handler: the promise is rejected.
\<close>

theorem unknown_name_counterexample:
  "map_of DEXSCREENER_CHAIN_MAP ''Mantle'' = None \<and> dexChainId ''Mantle'' = ChainId ''mantle''
   \<and> dexChainId ''Mantle'' \<noteq> ChainId ''Mantle''
   \<and> map_of COINGECKO_IDS ''Mantle'' = None \<and> getCoinGeckoId ''Mantle'' = Absent
   \<and> map_of COINGECKO_IDS ''constructor'' = None
   \<and> getCoinGeckoId ''constructor'' = Inherited
   \<and> fetchNetworkCoinData deadWorld ''constructor'' None = Rejected"
  by code_simp

lemma bsc_entry:
  "map_of CHAIN_NAME_MAP ''BSC'' =
     Some (mkChain ''BSC'' ''binancecoin'' ''chains/rsz_bsc.jpg'' [''BSC'', ''BNB Chain'', ''Binance''])"
  by code_simp

lemma bnb_no_entry: "map_of CHAIN_NAME_MAP ''BNB Chain'' = None"
  by code_simp

lemma bsc_bnb_ordinary: "\<not> inheritedName ''BSC'' \<and> \<not> inheritedName ''BNB Chain''"
  by code_simp

lemma findChainData_bsc_alias:
  assumes "map_of tvl ''BSC'' = None" and "map_of tvl ''BNB Chain'' = Some d"
  shows "findChainData tvl ''BSC'' = (Some d, ''BNB Chain'')"
  using assms findChainData_mapped[OF bsc_entry, of tvl]
  by (simp add: mkChain_def)

lemma findChainData_bnb_direct:
  assumes "map_of tvl ''BNB Chain'' = Some d"
  shows "findChainData tvl ''BNB Chain'' = (Some d, ''BNB Chain'')"
  using assms bsc_bnb_ordinary
  by (simp add: findChainData_def bnb_no_entry orStr_def Let_def getProp_Own)

text \<open>
  C8 (as amended). In the two tables that have both \<^verbatim>\<open>BSC\<close> and \<^verbatim>\<open>BNB Chain\<close> as
  keys, the liquidity table and the market-data table, the two names resolve to the same
  key. \<^verbatim>\<open>CHAIN_NAME_MAP\<close> has no entry for \<^verbatim>\<open>BNB Chain\<close>: it is an alternative name of
  \<^verbatim>\<open>BSC\<close>, tried when the registry has nothing under \<^verbatim>\<open>BSC\<close>, and when the registry
  lists the chain under \<^verbatim>\<open>BNB Chain\<close> both names find that entry.
\<close>

theorem bsc_bnb_same_key:
  "dexChainId ''BSC'' = ChainId ''bsc'' \<and> dexChainId ''BNB Chain'' = ChainId ''bsc''
   \<and> getCoinGeckoId ''BSC'' = Own ''binancecoin''
   \<and> getCoinGeckoId ''BNB Chain'' = Own ''binancecoin''
   \<and> map_of CHAIN_NAME_MAP ''BNB Chain'' = None
   \<and> (map_of tvl ''BSC'' = None \<and> map_of tvl ''BNB Chain'' = Some d \<longrightarrow>
        findChainData tvl ''BSC'' = (Some d, ''BNB Chain'') \<and>
        findChainData tvl ''BNB Chain'' = (Some d, ''BNB Chain''))"
proof (intro conjI impI)
  show "dexChainId ''BSC'' = ChainId ''bsc''" by code_simp
  show "dexChainId ''BNB Chain'' = ChainId ''bsc''" by code_simp
  show "getCoinGeckoId ''BSC'' = Own ''binancecoin''" by code_simp
  show "getCoinGeckoId ''BNB Chain'' = Own ''binancecoin''" by code_simp
  show "map_of CHAIN_NAME_MAP ''BNB Chain'' = None" by (rule bnb_no_entry)
next
  assume a: "map_of tvl ''BSC'' = None \<and> map_of tvl ''BNB Chain'' = Some d"
  show "findChainData tvl ''BSC'' = (Some d, ''BNB Chain'')"
    using a by (intro findChainData_bsc_alias) simp_all
next
  assume a: "map_of tvl ''BSC'' = None \<and> map_of tvl ''BNB Chain'' = Some d"
  show "findChainData tvl ''BNB Chain'' = (Some d, ''BNB Chain'')"
    using a by (intro findChainData_bnb_direct) simp_all
qed

theorem bsc_bnb_same_key_witness:
  "map_of [(''BNB Chain'', 7 :: nat)] ''BSC'' = None
   \<and> map_of [(''BNB Chain'', 7 :: nat)] ''BNB Chain'' = Some 7
   \<and> findChainData [(''BNB Chain'', 7 :: nat)] ''BSC'' = (Some 7, ''BNB Chain'')
   \<and> findChainData [(''BNB Chain'', 7 :: nat)] ''BNB Chain'' = (Some 7, ''BNB Chain'')"
proof -
  have h: "map_of [(''BNB Chain'', 7 :: nat)] ''BSC'' = None
           \<and> map_of [(''BNB Chain'', 7 :: nat)] ''BNB Chain'' = Some 7"
    by simp
  note imp = bsc_bnb_same_key[of "[(''BNB Chain'', 7 :: nat)]" 7,
      THEN conjunct2, THEN conjunct2, THEN conjunct2, THEN conjunct2, THEN conjunct2]
  note c = mp[OF imp h]
  show ?thesis
    by (rule conjI[OF h[THEN conjunct1] conjI[OF h[THEN conjunct2] c]])
qed

text \<open>
  C8 as stated fails on \<^verbatim>\<open>CHAIN_NAME_MAP\<close>, which lists both names for one entity: the
  key sent to the registry's per-chain endpoints is the name itself for \<^verbatim>\<open>BNB Chain\<close>.
\<close>

theorem bnb_alias_counterexample:
  "map_option altNames (map_of CHAIN_NAME_MAP ''BSC'') = Some [''BSC'', ''BNB Chain'', ''Binance'']
   \<and> defillamaChainName ''BSC'' = ''BSC''
   \<and> defillamaChainName ''BNB Chain'' = ''BNB Chain''
   \<and> defillamaChainName ''BSC'' \<noteq> defillamaChainName ''BNB Chain''"
  by code_simp

section \<open>Properties of the market share\<close>

lemma update_fresh:
  "k \<notin> fst ` set al \<Longrightarrow> AList.update k v al = al @ [(k, v)]"
  by (induction al) auto

lemma foldl_update_distinct:
  "distinct (map f xs) \<Longrightarrow> set (map f xs) \<inter> fst ` set acc = {} \<Longrightarrow>
   foldl (\<lambda>m x. AList.update (f x) (g x) m) acc xs = acc @ map (\<lambda>x. (f x, g x)) xs"
proof (induction xs arbitrary: acc)
  case Nil
  then show ?case by simp
next
  case (Cons x xs)
  have fresh: "f x \<notin> fst ` set acc"
    using Cons.prems(2) by auto
  have disj: "set (map f xs) \<inter> fst ` set (acc @ [(f x, g x)]) = {}"
    using Cons.prems by auto
  have "foldl (\<lambda>m x. AList.update (f x) (g x) m) (acc @ [(f x, g x)]) xs
          = (acc @ [(f x, g x)]) @ map (\<lambda>x. (f x, g x)) xs"
    using Cons.IH[OF _ disj] Cons.prems(1) by simp
  then show ?case
    by (simp add: update_fresh[OF fresh])
qed

lemma foldl_add_sum_list:
  "foldl (\<lambda>acc x. acc + f x) a xs = a + sum_list (map f xs)" for a :: rat
  by (induction xs arbitrary: a) (simp_all add: add.assoc)

lemma sum_list_percent:
  "sum_list (map (\<lambda>x. (f x / t) * 100) xs) = (sum_list (map f xs) / t) * 100" for t :: rat
  by (induction xs) (simp_all add: add_divide_distrib distrib_right)

lemma calculateMarketShare_distinct:
  assumes "distinct (map networkNameOf ns)"
  shows "calculateMarketShare tvl (Some ns) =
           map (\<lambda>n. (networkNameOf n,
                      \<lparr>percentage = (if sum_list (map (resolvedTvl tvl) ns) > 0
                                     then (resolvedTvl tvl n / sum_list (map (resolvedTvl tvl) ns)) * 100
                                     else 0),
                       sh_tvl = resolvedTvl tvl n,
                       totalTVL = sum_list (map (resolvedTvl tvl) ns)\<rparr>)) ns"
proof -
  have T: "foldl (\<lambda>acc network. acc + resolvedTvl tvl network) 0 ns
             = sum_list (map (resolvedTvl tvl) ns)"
    by (simp add: foldl_add_sum_list)
  show ?thesis
    unfolding calculateMarketShare_def Let_def option.case T
    by (rule foldl_update_distinct[OF assms, of "[]", simplified])
qed

text \<open>
  C10. For a list of networks with distinct names, calculateMarketShare returns one
  entry per network, in order; every entry carries the sum of the resolved TVLs as its
  total; the percentages add up to exactly 100 when that total is positive and are all
  0 when it is zero.
\<close>

theorem market_share_total:
  assumes "distinct (map networkNameOf ns)"
  shows "map fst (calculateMarketShare tvl (Some ns)) = map networkNameOf ns
       \<and> (\<forall>e \<in> set (map snd (calculateMarketShare tvl (Some ns))).
             totalTVL e = sum_list (map (resolvedTvl tvl) ns))
       \<and> (sum_list (map (resolvedTvl tvl) ns) > 0 \<longrightarrow>
             sum_list (map (\<lambda>kv. percentage (snd kv)) (calculateMarketShare tvl (Some ns))) = 100)
       \<and> (sum_list (map (resolvedTvl tvl) ns) = 0 \<longrightarrow>
             (\<forall>e \<in> set (map snd (calculateMarketShare tvl (Some ns))). percentage e = 0))"
proof -
  let ?T = "sum_list (map (resolvedTvl tvl) ns)"
  note eq = calculateMarketShare_distinct[OF assms, of tvl]
  have a: "map fst (calculateMarketShare tvl (Some ns)) = map networkNameOf ns"
    by (simp add: eq comp_def)
  have b: "\<forall>e \<in> set (map snd (calculateMarketShare tvl (Some ns))). totalTVL e = ?T"
    by (auto simp: eq)
  have c: "?T > 0 \<longrightarrow>
        sum_list (map (\<lambda>kv. percentage (snd kv)) (calculateMarketShare tvl (Some ns))) = 100"
  proof
    assume pos: "?T > 0"
    have "sum_list (map (\<lambda>kv. percentage (snd kv)) (calculateMarketShare tvl (Some ns)))
            = sum_list (map (\<lambda>n. (resolvedTvl tvl n / ?T) * 100) ns)"
      using pos by (simp add: eq comp_def)
    also have "\<dots> = (?T / ?T) * 100"
      by (rule sum_list_percent)
    also have "\<dots> = 100"
      using pos by simp
    finally show "sum_list (map (\<lambda>kv. percentage (snd kv)) (calculateMarketShare tvl (Some ns))) = 100" .
  qed
  have d: "?T = 0 \<longrightarrow>
        (\<forall>e \<in> set (map snd (calculateMarketShare tvl (Some ns))). percentage e = 0)"
    by (auto simp: eq)
  show ?thesis using a b c d by blast
qed


theorem market_share_total_witness:
  "distinct (map networkNameOf [NetName ''Ethereum'', NetObj ''BSC'', NetName ''Mantle''])
   \<and> sum_list (map (resolvedTvl tvlSample) [NetName ''Ethereum'', NetObj ''BSC'', NetName ''Mantle'']) = 40
   \<and> sum_list (map (\<lambda>kv. percentage (snd kv))
        (calculateMarketShare tvlSample (Some [NetName ''Ethereum'', NetObj ''BSC'', NetName ''Mantle'']))) = 100"
proof -
  have d: "distinct (map networkNameOf [NetName ''Ethereum'', NetObj ''BSC'', NetName ''Mantle''])"
    by simp
  have t: "sum_list (map (resolvedTvl tvlSample) [NetName ''Ethereum'', NetObj ''BSC'', NetName ''Mantle'']) = 40"
    by code_simp
  show ?thesis
    using d t market_share_total[OF d, of tvlSample] by simp
qed

section \<open>Properties of the liquidity lookup\<close>

lemma sumLiquidity_acc:
  "foldl (\<lambda>acc pair. case liquidity_usd pair of None \<Rightarrow> acc
                       | Some usd \<Rightarrow> if usd \<noteq> 0 then acc + usd else acc) a pairs
     = a + sum_list (map (\<lambda>p. orZero (liquidity_usd p)) pairs)"
  by (induction pairs arbitrary: a) (auto simp: orZero_def split: option.splits)

lemma sumLiquidity_sum_list:
  "sumLiquidity pairs = sum_list (map (\<lambda>p. orZero (liquidity_usd p)) pairs)"
  by (simp add: sumLiquidity_def sumLiquidity_acc)

lemma searchFallback_positive:
  "searchFallback sr = Some r \<Longrightarrow> totalLiquidity r > 0"
  by (auto simp: searchFallback_def Let_def split: option.splits if_splits)

lemma searchFallback_eq:
  "searchFallback sr =
     (case sr of
        Some (Some pairs) \<Rightarrow>
          if sum_list (map (\<lambda>p. orZero (liquidity_usd p)) (take 10 pairs)) > 0
          then Some \<lparr>totalLiquidity = sum_list (map (\<lambda>p. orZero (liquidity_usd p)) (take 10 pairs)),
                     pairCount = length pairs\<rparr>
          else None
      | _ \<Rightarrow> None)"
  by (auto simp: searchFallback_def Let_def sumLiquidity_sum_list split: option.splits)

lemma lookupLiquidity_eq:
  "lookupLiquidity w net =
     (case fetchChainTotalLiquidity w (dexChainId (n_name net)) of
        None \<Rightarrow> searchFallback (searchTokens w (orStr (Some (n_symbol net)) (n_name net)))
      | Some l \<Rightarrow>
          if totalLiquidity l \<le> 0
          then searchFallback (searchTokens w (orStr (Some (n_symbol net)) (n_name net)))
          else Some l)"
  by (simp add: lookupLiquidity_def Let_def split: option.splits)

lemma lookupLiquidity_positive:
  "lookupLiquidity w net = Some r \<Longrightarrow> totalLiquidity r > 0"
  by (auto simp: lookupLiquidity_eq dest: searchFallback_positive split: option.splits if_splits)

text \<open>
  C5 (as amended). The lookup tries the per-chain aggregation first and falls back to
  the token search exactly when that gives no result or a total that is not positive.
  The fallback adds \<open>liquidity.usd\<close> over the first ten pairs of the search response, in
  the order of the response, and reports the number of all pairs; a result is only ever
  returned with a positive total, otherwise the lookup gives null.
\<close>

theorem liquidity_two_tier:
  "lookupLiquidity w net =
     (case fetchChainTotalLiquidity w (dexChainId (n_name net)) of
        None \<Rightarrow> searchFallback (searchTokens w (orStr (Some (n_symbol net)) (n_name net)))
      | Some l \<Rightarrow>
          if totalLiquidity l \<le> 0
          then searchFallback (searchTokens w (orStr (Some (n_symbol net)) (n_name net)))
          else Some l)
   \<and> searchFallback sr =
     (case sr of
        Some (Some pairs) \<Rightarrow>
          if sum_list (map (\<lambda>p. orZero (liquidity_usd p)) (take 10 pairs)) > 0
          then Some \<lparr>totalLiquidity = sum_list (map (\<lambda>p. orZero (liquidity_usd p)) (take 10 pairs)),
                     pairCount = length pairs\<rparr>
          else None
      | _ \<Rightarrow> None)
   \<and> (lookupLiquidity w net = Some r \<longrightarrow> totalLiquidity r > 0)"
  using lookupLiquidity_eq searchFallback_eq lookupLiquidity_positive by (intro conjI impI)

theorem liquidity_two_tier_witness:
  "lookupLiquidity searchWorld ethereumNet = Some \<lparr>totalLiquidity = 10, pairCount = 11\<rparr>
   \<and> totalLiquidity \<lparr>totalLiquidity = 10, pairCount = 11\<rparr> > 0"
proof -
  have a: "lookupLiquidity searchWorld ethereumNet = Some \<lparr>totalLiquidity = 10, pairCount = 11\<rparr>"
    by code_simp
  note imp = liquidity_two_tier[of searchWorld ethereumNet _ "\<lparr>totalLiquidity = 10, pairCount = 11\<rparr>",
      THEN conjunct2, THEN conjunct2]
  show ?thesis
    by (rule conjI[OF a mp[OF imp a]])
qed

text \<open>
  C5 as stated fails: the fallback does not pick the pairs of highest liquidity. With
  ten pairs of liquidity 1 followed by one of liquidity 1000 it returns 10, while the ten
  highest add up to 1009.
\<close>

theorem first_ten_counterexample:
  "map_option totalLiquidity (lookupLiquidity searchWorld ethereumNet) = Some 10
   \<and> sumLiquidity (tenHighestLiquidity samplePairs) = 1009"
  by code_simp

section \<open>Properties of the bulk caches\<close>

lemma pools_hit:
  "poolsCache sy = Some cy \<Longrightarrow> now - poolsCacheTime sy < YIELDS_CACHE_TTL \<Longrightarrow>
   fetchAllPools w now sy = (cy, sy)"
  by (simp add: fetchAllPools_def)

lemma pools_miss:
  "\<not> (poolsCache sy \<noteq> None \<and> now - poolsCacheTime sy < YIELDS_CACHE_TTL) \<Longrightarrow>
   fetchAllPools w now sy = downloadPools w now sy"
  by (auto simp: fetchAllPools_def split: option.splits)

lemma pools_download:
  "downloadPools w now sy =
     (case w_pools w of
        Ok body \<Rightarrow>
          (case body of None \<Rightarrow> [] | Some l \<Rightarrow> l,
           \<lparr>poolsCache = Some (case body of None \<Rightarrow> [] | Some l \<Rightarrow> l), poolsCacheTime = now\<rparr>)
      | _ \<Rightarrow> ([], sy))"
  by (simp add: downloadPools_def Let_def split: response.splits)

lemma stable_hit:
  "stablecoinChainsCache ss = Some cs \<Longrightarrow> now - stablecoinCacheTime ss < STABLECOIN_CACHE_TTL \<Longrightarrow>
   fetchStablecoinChains w now ss = (cs, ss)"
  by (simp add: fetchStablecoinChains_def)

lemma stable_miss:
  "\<not> (stablecoinChainsCache ss \<noteq> None \<and> now - stablecoinCacheTime ss < STABLECOIN_CACHE_TTL) \<Longrightarrow>
   fetchStablecoinChains w now ss = downloadStablecoinChains w now ss"
  by (auto simp: fetchStablecoinChains_def split: option.splits)

lemma stable_download:
  "(case w_stablecoinchains w of
      Ok data \<Rightarrow>
        snd (downloadStablecoinChains w now ss) =
          \<lparr>stablecoinChainsCache = Some (fst (downloadStablecoinChains w now ss)),
           stablecoinCacheTime = now\<rparr>
    | _ \<Rightarrow> downloadStablecoinChains w now ss = ([], ss))"
  by (simp add: downloadStablecoinChains_def Let_def split: response.splits)

lemma fng_hit:
  "fngCache sf = Some cf \<Longrightarrow> now - fngCacheTime sf < FNG_CACHE_TTL \<Longrightarrow>
   fetchFearGreedIndex w now sf = (Some cf, sf)"
  by (simp add: fetchFearGreedIndex_def)

lemma fng_miss:
  "\<not> (fngCache sf \<noteq> None \<and> now - fngCacheTime sf < FNG_CACHE_TTL) \<Longrightarrow>
   fetchFearGreedIndex w now sf = downloadFearGreed w now sf"
  by (auto simp: fetchFearGreedIndex_def split: option.splits)

lemma fng_download:
  "downloadFearGreed w now sf =
     (case w_fng w of
        Ok (Some (row # rows)) \<Rightarrow>
          (Some (fngResultOf (row # rows)),
           \<lparr>fngCache = Some (fngResultOf (row # rows)), fngCacheTime = now\<rparr>)
      | _ \<Rightarrow> (None, sf))"
  by (simp add: downloadFearGreed_def Let_def split: response.splits option.splits list.splits)

text \<open>
  C3 (as amended). For each of the three bulk caches (yield pools, stablecoin chains,
  fear and greed index) a call is a hit exactly when a payload is cached and
  \<open>now - fetchedAt < TTL\<close>: then the cached payload is returned and nothing changes,
  whatever the provider would answer. On a miss the provider is asked; a successful
  answer is stored with the time of the call and returned; a failed fetch returns the
  empty payload (null for the index) and leaves the cache and its timestamp as they were.
\<close>

theorem bulk_cache_behaviour:
  "(poolsCache sy = Some cy \<and> now - poolsCacheTime sy < YIELDS_CACHE_TTL \<longrightarrow>
      fetchAllPools w now sy = (cy, sy))
   \<and> (\<not> (poolsCache sy \<noteq> None \<and> now - poolsCacheTime sy < YIELDS_CACHE_TTL) \<longrightarrow>
      fetchAllPools w now sy =
        (case w_pools w of
           Ok body \<Rightarrow>
             (case body of None \<Rightarrow> [] | Some l \<Rightarrow> l,
              \<lparr>poolsCache = Some (case body of None \<Rightarrow> [] | Some l \<Rightarrow> l),
               poolsCacheTime = now\<rparr>)
         | _ \<Rightarrow> ([], sy)))
   \<and> (stablecoinChainsCache ss = Some cs \<and>
        now - stablecoinCacheTime ss < STABLECOIN_CACHE_TTL \<longrightarrow>
      fetchStablecoinChains w now ss = (cs, ss))
   \<and> (\<not> (stablecoinChainsCache ss \<noteq> None \<and>
           now - stablecoinCacheTime ss < STABLECOIN_CACHE_TTL) \<longrightarrow>
      (case w_stablecoinchains w of
         Ok data \<Rightarrow>
           snd (fetchStablecoinChains w now ss) =
             \<lparr>stablecoinChainsCache = Some (fst (fetchStablecoinChains w now ss)),
              stablecoinCacheTime = now\<rparr>
       | _ \<Rightarrow> fetchStablecoinChains w now ss = ([], ss)))
   \<and> (fngCache sf = Some cf \<and> now - fngCacheTime sf < FNG_CACHE_TTL \<longrightarrow>
      fetchFearGreedIndex w now sf = (Some cf, sf))
   \<and> (\<not> (fngCache sf \<noteq> None \<and> now - fngCacheTime sf < FNG_CACHE_TTL) \<longrightarrow>
      fetchFearGreedIndex w now sf =
        (case w_fng w of
           Ok (Some (row # rows)) \<Rightarrow>
             (Some (fngResultOf (row # rows)),
              \<lparr>fngCache = Some (fngResultOf (row # rows)), fngCacheTime = now\<rparr>)
         | _ \<Rightarrow> (None, sf)))"
proof (intro conjI impI)
  assume "poolsCache sy = Some cy \<and> now - poolsCacheTime sy < YIELDS_CACHE_TTL"
  then show "fetchAllPools w now sy = (cy, sy)"
    by (simp add: pools_hit)
next
  assume h: "\<not> (poolsCache sy \<noteq> None \<and> now - poolsCacheTime sy < YIELDS_CACHE_TTL)"
  show "fetchAllPools w now sy =
        (case w_pools w of
           Ok body \<Rightarrow>
             (case body of None \<Rightarrow> [] | Some l \<Rightarrow> l,
              \<lparr>poolsCache = Some (case body of None \<Rightarrow> [] | Some l \<Rightarrow> l),
               poolsCacheTime = now\<rparr>)
         | _ \<Rightarrow> ([], sy))"
    unfolding pools_miss[OF h] by (rule pools_download)
next
  assume "stablecoinChainsCache ss = Some cs \<and>
        now - stablecoinCacheTime ss < STABLECOIN_CACHE_TTL"
  then show "fetchStablecoinChains w now ss = (cs, ss)"
    by (simp add: stable_hit)
next
  assume h: "\<not> (stablecoinChainsCache ss \<noteq> None \<and>
           now - stablecoinCacheTime ss < STABLECOIN_CACHE_TTL)"
  show "case w_stablecoinchains w of
         Ok data \<Rightarrow>
           snd (fetchStablecoinChains w now ss) =
             \<lparr>stablecoinChainsCache = Some (fst (fetchStablecoinChains w now ss)),
              stablecoinCacheTime = now\<rparr>
       | _ \<Rightarrow> fetchStablecoinChains w now ss = ([], ss)"
    unfolding stable_miss[OF h] by (rule stable_download)
next
  assume "fngCache sf = Some cf \<and> now - fngCacheTime sf < FNG_CACHE_TTL"
  then show "fetchFearGreedIndex w now sf = (Some cf, sf)"
    by (simp add: fng_hit)
next
  assume h: "\<not> (fngCache sf \<noteq> None \<and> now - fngCacheTime sf < FNG_CACHE_TTL)"
  show "fetchFearGreedIndex w now sf =
        (case w_fng w of
           Ok (Some (row # rows)) \<Rightarrow>
             (Some (fngResultOf (row # rows)),
              \<lparr>fngCache = Some (fngResultOf (row # rows)), fngCacheTime = now\<rparr>)
         | _ \<Rightarrow> (None, sf))"
    unfolding fng_miss[OF h] by (rule fng_download)
qed

theorem bulk_cache_behaviour_witness:
  "fetchAllPools deadWorld 2000 warmYields = ([], warmYields)
   \<and> fetchAllPools poolsWorld 400000 warmYields =
       ([samplePool], \<lparr>poolsCache = Some [samplePool], poolsCacheTime = 400000\<rparr>)"
proof -
  have h1: "poolsCache warmYields = Some [] \<and> 2000 - poolsCacheTime warmYields < YIELDS_CACHE_TTL"
    by (simp add: warmYields_def YIELDS_CACHE_TTL_def)
  have h2: "\<not> (poolsCache warmYields \<noteq> None \<and> 400000 - poolsCacheTime warmYields < YIELDS_CACHE_TTL)"
    by (simp add: warmYields_def YIELDS_CACHE_TTL_def)
  note a = mp[OF bulk_cache_behaviour[where sy = warmYields and cy = "[]" and now = 2000
                 and w = deadWorld, THEN conjunct1] h1]
  note b = mp[OF bulk_cache_behaviour[where sy = warmYields and now = 400000
                 and w = poolsWorld, THEN conjunct2, THEN conjunct1] h2]
  have c: "w_pools poolsWorld = Ok (Some [samplePool])"
    by (simp add: poolsWorld_def)
  show ?thesis
    using a b by (simp add: c)
qed

text \<open>
  C3 as stated fails: after a failed fetch at time 1000 on an empty pool cache the
  timestamp is still 0, and a call one millisecond later asks the provider again. The
  other two caches keep their state after a failed fetch in the same way.
\<close>

theorem failed_fetch_counterexample:
  "fetchAllPools deadWorld 1000 coldYields = ([], coldYields)
   \<and> poolsCacheTime (snd (fetchAllPools deadWorld 1000 coldYields)) \<noteq> 1000
   \<and> fetchAllPools poolsWorld 1001 (snd (fetchAllPools deadWorld 1000 coldYields)) =
       ([samplePool], \<lparr>poolsCache = Some [samplePool], poolsCacheTime = 1001\<rparr>)
   \<and> fetchStablecoinChains deadWorld 1000 coldStable = ([], coldStable)
   \<and> fetchFearGreedIndex deadWorld 1000 coldFng = (None, coldFng)"
  by code_simp

section \<open>Properties of the snapshot cache\<close>

lemma storeSnapshot_result:
  "storeSnapshot k snap st = (r, st') \<Longrightarrow>
     r = length (heap st) \<and> heap st' = heap st @ [snap] \<and>
     networkDataCache st' = (networkDataCache st)(k \<mapsto> r) \<and> services st' = services st"
  by (auto simp: storeSnapshot_def Let_def)

lemma statsCardThen_result:
  assumes "statsCardThen w started finished net st = (r, st')"
  shows "r = length (heap st) \<and> length (heap st') = Suc (length (heap st)) \<and>
         (\<forall>i < length (heap st). heap st' ! i = heap st ! i) \<and>
         fetchedAt (heap st' ! r) = finished \<and>
         networkDataCache st' = (networkDataCache st)(n_name net \<mapsto> r)"
proof -
  obtain snap sv where
    eq: "storeSnapshot (n_name net) snap (st\<lparr>services := sv\<rparr>) = (r, st')"
    and stamp: "fetchedAt snap = finished"
    using assms by (simp add: statsCardThen_def Let_def)
  from storeSnapshot_result[OF eq] stamp show ?thesis
    by (simp add: nth_append)
qed

lemma statsCardLookup_hit:
  "statsCardLookup now net st = CacheHit r \<longleftrightarrow>
     networkDataCache st (n_name net) = Some r \<and> r < length (heap st) \<and>
     now - fetchedAt (heap st ! r) < CACHE_MAX_AGE"
  by (auto simp: statsCardLookup_def split: option.splits)

lemma statsCardEffect_cached:
  assumes "statsCardEffect w now e net st = (r, st')"
  shows "networkDataCache st' (n_name net) = Some r \<and> r < length (heap st')"
proof (cases "statsCardLookup now net st")
  case (CacheHit r0)
  with assms have "r0 = r" "st' = st"
    by (simp_all add: statsCardEffect_def)
  with CacheHit show ?thesis
    by (simp add: statsCardLookup_hit)
next
  case CacheMiss
  with assms have "statsCardThen w now (now + int e) net st = (r, st')"
    by (simp add: statsCardEffect_def)
  from statsCardThen_result[OF this] show ?thesis
    by simp
qed

lemma second_lookup_hit:
  assumes first: "statsCardEffect w t1 e1 net st = (r1, st1)"
    and fresh: "t2 - fetchedAt (heap st1 ! r1) < CACHE_MAX_AGE"
  shows "statsCardEffect w' t2 e2 net st1 = (r1, st1)"
proof -
  from statsCardEffect_cached[OF first] fresh
  have "statsCardLookup t2 net st1 = CacheHit r1"
    by (simp add: statsCardLookup_hit)
  then show ?thesis
    by (simp add: statsCardEffect_def)
qed

lemma second_lookup_refresh:
  assumes first: "statsCardEffect w t1 e1 net st = (r1, st1)"
    and stale: "\<not> t2 - fetchedAt (heap st1 ! r1) < CACHE_MAX_AGE"
    and second: "statsCardEffect w' t2 e2 net st1 = (r2, st2)"
  shows "r2 \<noteq> r1 \<and> networkDataCache st2 (n_name net) = Some r2 \<and>
         fetchedAt (heap st2 ! r2) = t2 + int e2 \<and>
         fetchedAt (heap st2 ! r2) > fetchedAt (heap st1 ! r1) \<and>
         heap st2 ! r1 = heap st1 ! r1"
proof -
  note c = statsCardEffect_cached[OF first]
  from c stale have "statsCardLookup t2 net st1 = CacheMiss"
    by (simp add: statsCardLookup_def)
  with second have "statsCardThen w' t2 (t2 + int e2) net st1 = (r2, st2)"
    by (simp add: statsCardEffect_def)
  note t = statsCardThen_result[OF this]
  have "fetchedAt (heap st1 ! r1) < t2 + int e2"
    using stale by (simp add: CACHE_MAX_AGE_def)
  with t c show ?thesis
    by auto
qed















section \<open>Properties of interleaved requests\<close>

lemma run_Cons: "run w sc (ev # evs) = run w (step w sc ev) evs"
  by (simp add: run_def)

lemma run_Nil: "run w sc [] = sc"
  by (simp add: run_def)

lemma run_selects:
  "\<forall>t \<in> set ts. statsCardLookup t net (sc_app sc) = CacheMiss \<Longrightarrow>
   run w sc (map (Select net) ts) =
     sc\<lparr>sc_inflight := sc_inflight sc @ map (Pair net) ts,
        sc_issued := sc_issued sc @ replicate (length ts) (n_name net)\<rparr>"
proof (induction ts arbitrary: sc)
  case Nil
  then show ?case by (simp add: run_Nil)
next
  case (Cons t ts)
  let ?sc1 = "sc\<lparr>sc_inflight := sc_inflight sc @ [(net, t)],
                 sc_issued := sc_issued sc @ [n_name net]\<rparr>"
  have miss: "statsCardLookup t net (sc_app sc) = CacheMiss"
    using Cons.prems by simp
  have rest: "\<forall>t \<in> set ts. statsCardLookup t net (sc_app ?sc1) = CacheMiss"
    using Cons.prems by simp
  have "run w sc (map (Select net) (t # ts)) = run w ?sc1 (map (Select net) ts)"
    using miss by (simp add: run_Cons)
  also have "\<dots> = ?sc1\<lparr>sc_inflight := sc_inflight ?sc1 @ map (Pair net) ts,
        sc_issued := sc_issued ?sc1 @ replicate (length ts) (n_name net)\<rparr>"
    by (rule Cons.IH[OF rest])
  finally show ?case
    by (simp add: replicate_append_same)
qed

lemma step_settle:
  assumes "i < length (sc_inflight sc)"
  shows "sc_issued (step w sc (Settle i t)) = sc_issued sc \<and>
         length (sc_inflight (step w sc (Settle i t))) = length (sc_inflight sc) - 1 \<and>
         networkDataCache (sc_app (step w sc (Settle i t))) (n_name (fst (sc_inflight sc ! i)))
           = Some (length (heap (sc_app sc))) \<and>
         fetchedAt (heap (sc_app (step w sc (Settle i t))) ! length (heap (sc_app sc))) = t"
proof -
  let ?p = "sc_inflight sc ! i"
  obtain r st' where eq: "statsCardThen w (snd ?p) t (fst ?p) (sc_app sc) = (r, st')"
    by (cases "statsCardThen w (snd ?p) t (fst ?p) (sc_app sc)") auto
  note res = statsCardThen_result[OF eq]
  have "step w sc (Settle i t) =
          sc\<lparr>sc_app := st',
             sc_inflight := take i (sc_inflight sc) @ drop (Suc i) (sc_inflight sc)\<rparr>"
    using assms eq by (simp add: Let_def)
  with res assms show ?thesis
    by auto
qed

text \<open>
  C7 (as amended). There is no coalescing of requests. Every selection of an entity
  whose cache entry is missing or stale starts a refresh of its own, whether or not one
  for the same entity is already in flight: \<open>k\<close> such selections before any refresh settles
  leave \<open>k\<close> refreshes issued and in flight, and the cache untouched. Each refresh, when it
  settles, stores a new snapshot stamped with the time it settles and issues nothing; a
  selection that finds a fresh entry starts nothing.
\<close>

theorem every_request_refreshes:
  "((\<forall>t \<in> set ts. statsCardLookup t net (sc_app sc) = CacheMiss) \<longrightarrow>
      sc_issued (run w sc (map (Select net) ts))
        = sc_issued sc @ replicate (length ts) (n_name net) \<and>
      sc_inflight (run w sc (map (Select net) ts)) = sc_inflight sc @ map (Pair net) ts \<and>
      sc_app (run w sc (map (Select net) ts)) = sc_app sc)
   \<and> (i < length (sc_inflight sc) \<longrightarrow>
      sc_issued (step w sc (Settle i t)) = sc_issued sc \<and>
      length (sc_inflight (step w sc (Settle i t))) = length (sc_inflight sc) - 1 \<and>
      networkDataCache (sc_app (step w sc (Settle i t))) (n_name (fst (sc_inflight sc ! i)))
        = Some (length (heap (sc_app sc))) \<and>
      fetchedAt (heap (sc_app (step w sc (Settle i t))) ! length (heap (sc_app sc))) = t)
   \<and> (statsCardLookup t net (sc_app sc) = CacheHit r \<longrightarrow> step w sc (Select net t) = sc)"
proof (rule conjI)
  show "(\<forall>t \<in> set ts. statsCardLookup t net (sc_app sc) = CacheMiss) \<longrightarrow>
      sc_issued (run w sc (map (Select net) ts))
        = sc_issued sc @ replicate (length ts) (n_name net) \<and>
      sc_inflight (run w sc (map (Select net) ts)) = sc_inflight sc @ map (Pair net) ts \<and>
      sc_app (run w sc (map (Select net) ts)) = sc_app sc"
    by (simp add: run_selects)
next
  show "(i < length (sc_inflight sc) \<longrightarrow>
      sc_issued (step w sc (Settle i t)) = sc_issued sc \<and>
      length (sc_inflight (step w sc (Settle i t))) = length (sc_inflight sc) - 1 \<and>
      networkDataCache (sc_app (step w sc (Settle i t))) (n_name (fst (sc_inflight sc ! i)))
        = Some (length (heap (sc_app sc))) \<and>
      fetchedAt (heap (sc_app (step w sc (Settle i t))) ! length (heap (sc_app sc))) = t)
   \<and> (statsCardLookup t net (sc_app sc) = CacheHit r \<longrightarrow> step w sc (Select net t) = sc)"
  proof (rule conjI)
    show "i < length (sc_inflight sc) \<longrightarrow>
      sc_issued (step w sc (Settle i t)) = sc_issued sc \<and>
      length (sc_inflight (step w sc (Settle i t))) = length (sc_inflight sc) - 1 \<and>
      networkDataCache (sc_app (step w sc (Settle i t))) (n_name (fst (sc_inflight sc ! i)))
        = Some (length (heap (sc_app sc))) \<and>
      fetchedAt (heap (sc_app (step w sc (Settle i t))) ! length (heap (sc_app sc))) = t"
      using step_settle by (intro impI)
  next
    show "statsCardLookup t net (sc_app sc) = CacheHit r \<longrightarrow> step w sc (Select net t) = sc"
      by simp
  qed
qed

theorem every_request_refreshes_witness:
  "statsCardLookup 0 ethereumNet (sc_app sched0) = CacheMiss
   \<and> statsCardLookup 10 ethereumNet (sc_app sched0) = CacheMiss
   \<and> sc_issued (run deadWorld sched0 (map (Select ethereumNet) [0, 10]))
       = sc_issued sched0 @ replicate (length [0 :: int, 10]) (n_name ethereumNet)"
proof -
  have a: "statsCardLookup 0 ethereumNet (sc_app sched0) = CacheMiss"
    by code_simp
  have b: "statsCardLookup 10 ethereumNet (sc_app sched0) = CacheMiss"
    by code_simp
  have h: "\<forall>t \<in> set [0, 10]. statsCardLookup t ethereumNet (sc_app sched0) = CacheMiss"
    using a b by simp
  note c = mp[OF every_request_refreshes[where ts = "[0, 10]" and net = ethereumNet
                 and sc = sched0 and w = deadWorld, THEN conjunct1] h, THEN conjunct1]
  show ?thesis
    by (rule conjI[OF a conjI[OF b c]])
qed

text \<open>
  C7 as stated fails: two selections of Ethereum ten milliseconds apart, on an empty
  cache, issue two refreshes for Ethereum, both in flight at once, and both store a
  snapshot when they settle.
\<close>

theorem duplicate_refresh_counterexample:
  "sc_issued (run deadWorld sched0 [Select ethereumNet 0, Select ethereumNet 10])
     = [''Ethereum'', ''Ethereum'']
   \<and> length (sc_inflight (run deadWorld sched0 [Select ethereumNet 0, Select ethereumNet 10])) = 2
   \<and> length (heap (sc_app (run deadWorld sched0
        [Select ethereumNet 0, Select ethereumNet 10, Settle 0 500, Settle 0 600]))) = 2"
  by code_simp

section \<open>Properties of the snapshot build\<close>

lemma failed_case:
  "failed r \<Longrightarrow> (case r of NetworkError \<Rightarrow> d | HttpError \<Rightarrow> d | Ok x \<Rightarrow> f x) = d"
  by (cases r) simp_all

lemma altNameLookup_empty: "altNameLookup [] names = None"
  by (induction names) simp_all

lemma findChainData_empty: "fst (findChainData [] n) = None"
  by (simp add: findChainData_def getProp_def Let_def altNameLookup_empty split: option.splits)

lemma details_tvl_fail:
  assumes "failed (w_chains w)"
  shows "d_tvl (fetchNetworkDetails w n) = 0"
proof -
  have "fetchChainTVL w = []"
    using assms by (simp add: fetchChainTVL_def failed_case)
  then show ?thesis
    by (simp add: fetchNetworkDetails_def Let_def findChainData_empty)
qed

lemma coin_fail:
  assumes "\<forall>k. failed (w_coins w k)"
  shows "settledOr None (fetchNetworkCoinData w n g) = None"
  using assms
  by (simp add: fetchNetworkCoinData_def fetchCoinData_def failed_case Let_def settledOr_def
           split: option.splits property.splits)

lemma liquidity_fail:
  assumes "\<forall>k. failed (w_pairs w k)" and "\<forall>k. failed (w_search w k)"
  shows "lookupLiquidity w net = None"
proof -
  have a: "fetchChainTotalLiquidity w c = None" for c
    using assms(1)[rule_format, of c] by (cases "w_pairs w c") (simp_all add: fetchChainTotalLiquidity_def)
  have b: "searchTokens w q = None" for q
    using assms(2) by (simp add: searchTokens_def failed_case)
  show ?thesis
    by (simp add: lookupLiquidity_def Let_def a b searchFallback_def)
qed

lemma stable_fail:
  assumes "failed (w_stablecoinchains w)"
    and "\<not> (stablecoinChainsCache ss \<noteq> None \<and> now - stablecoinCacheTime ss < STABLECOIN_CACHE_TTL)"
    and "\<not> inheritedName n"
  shows "fetchChainStablecoinTVL w now ss n = (Some 0, ss)"
proof -
  have "fetchStablecoinChains w now ss = ([], ss)"
    using assms
    by (auto simp: fetchStablecoinChains_def downloadStablecoinChains_def failed_case
             split: option.splits)
  then show ?thesis
    using assms(3) by (simp add: fetchChainStablecoinTVL_def Let_def stablecoinOf_def getProp_def)
qed

lemma pools_fail:
  assumes "failed (w_pools w)"
    and "\<not> (poolsCache sy \<noteq> None \<and> now - poolsCacheTime sy < YIELDS_CACHE_TTL)"
  shows "fetchAllPools w now sy = ([], sy)"
  using assms
  by (auto simp: fetchAllPools_def downloadPools_def failed_case split: option.splits)

lemma yield_fail:
  assumes "failed (w_pools w)"
    and "\<not> (poolsCache sy \<noteq> None \<and> now - poolsCacheTime sy < YIELDS_CACHE_TTL)"
  shows "fetchChainYieldStats w now sy n = (None, sy)"
  by (simp add: fetchChainYieldStats_def Let_def pools_fail[OF assms] yieldStatsOf_def)

lemma fng_fail:
  assumes "failed (w_fng w)"
    and "\<not> (fngCache sf \<noteq> None \<and> now - fngCacheTime sf < FNG_CACHE_TTL)"
  shows "fetchFearGreedIndex w now sf = (None, sf)"
  using assms
  by (auto simp: fetchFearGreedIndex_def downloadFearGreed_def failed_case split: option.splits)

lemma providerCalls_fail:
  assumes "allProvidersFail w" and "bulkCachesMiss now sv" and "\<not> inheritedName (n_name net)"
  shows "d_tvl (f_defillama (fst (providerCalls w now sv net))) = 0 \<and>
         settledOr None (f_coingecko (fst (providerCalls w now sv net))) = None \<and>
         f_dexscreener (fst (providerCalls w now sv net)) = None \<and>
         f_stablecoin (fst (providerCalls w now sv net)) = Some 0 \<and>
         f_yield (fst (providerCalls w now sv net)) = None \<and>
         f_fearGreed (fst (providerCalls w now sv net)) = None"
proof -
  from assms(1) have w: "failed (w_chains w)" "\<forall>k. failed (w_coins w k)"
      "\<forall>k. failed (w_pairs w k)" "\<forall>k. failed (w_search w k)"
      "failed (w_stablecoinchains w)" "failed (w_pools w)" "failed (w_fng w)"
    by (simp_all add: allProvidersFail_def)
  from assms(2) have c:
      "\<not> (stablecoinChainsCache (sv_stable sv) \<noteq> None \<and>
          now - stablecoinCacheTime (sv_stable sv) < STABLECOIN_CACHE_TTL)"
      "\<not> (poolsCache (sv_yields sv) \<noteq> None \<and>
          now - poolsCacheTime (sv_yields sv) < YIELDS_CACHE_TTL)"
      "\<not> (fngCache (sv_fng sv) \<noteq> None \<and> now - fngCacheTime (sv_fng sv) < FNG_CACHE_TTL)"
    by (simp_all add: bulkCachesMiss_def)
  show ?thesis
    by (simp add: providerCalls_def Let_def details_tvl_fail[OF w(1)] coin_fail[OF w(2)]
          liquidity_fail[OF w(3) w(4)] stable_fail[OF w(5) c(1) assms(3)] yield_fail[OF w(6) c(2)]
          fng_fail[OF w(7) c(3)])
qed

lemma cachedSnapshot_store:
  "cachedSnapshot (snd (storeSnapshot k snap st)) k = Some snap"
  by (simp add: cachedSnapshot_def storeSnapshot_def Let_def)

lemma preFetch_defaults:
  assumes "allProvidersFail w" and "bulkCachesMiss now (services st)"
    and "\<not> inheritedName (n_name net)"
  shows "map_option hasDefaults (cachedSnapshot (preFetchNetwork w now e net st) (n_name net))
           = Some True"
  using providerCalls_fail[OF assms]
  by (simp add: preFetchNetwork_def Let_def cachedSnapshot_store hasDefaults_def
        assembleSettled_def settledOr_def)

lemma preFetch_stamp:
  "map_option fetchedAt (cachedSnapshot (preFetchNetwork w now e net st) (n_name net))
     = Some (now + int e)"
  by (simp add: preFetchNetwork_def Let_def cachedSnapshot_store assembleSettled_def)

lemma statsCard_defaults:
  assumes "allProvidersFail w" and "bulkCachesMiss now (services st)"
    and "\<not> inheritedName (n_name net)"
    and "statsCardLookup now net st = CacheMiss"
  shows "map_option hasDefaults
           (cachedSnapshot (snd (statsCardEffect w now e net st)) (n_name net)) = Some True"
  using providerCalls_fail[OF assms(1,2,3)] assms(4)
  by (simp add: statsCardEffect_def statsCardThen_def Let_def cachedSnapshot_store
        hasDefaults_def)

lemma statsCard_stamp:
  assumes "statsCardLookup now net st = CacheMiss"
  shows "map_option fetchedAt
           (cachedSnapshot (snd (statsCardEffect w now e net st)) (n_name net))
           = Some (now + int e)"
  using assms
  by (simp add: statsCardEffect_def statsCardThen_def Let_def cachedSnapshot_store)

lemma assembleSettled_rejected:
  "assembleSettled Rejected Rejected Rejected Rejected Rejected Rejected Rejected Rejected
     stamp =
   \<lparr>detailedData = None, priceData = None, historicalData = None,
    dexScreenerData = None, stablecoinData = Some 0, yieldData = None, topYields = None,
    fearGreedData = None, fetchedAt = stamp\<rparr>"
  by (simp add: assembleSettled_def settledOr_def)

lemma roster_names_ordinary:
  "list_all (\<lambda>net. \<not> inheritedName (n_name net)) BASE_NETWORKS"
  by code_simp

text \<open>
  C1. Both builds, the one of preFetchNetworkData and the one of StatsCard on a cache
  miss, always end with a snapshot stored under the network's name and stamped with the
  time the build settled: no failure of a provider escapes. When every provider call is
  made and fails, the stored snapshot has the documented defaults: TVL 0, price null,
  liquidity null, stablecoin value 0, yield statistics null, sentiment null. The defaults
  are stated for an entity name that is not an inherited property name of a plain object,
  which every name of the static roster is: under a name such as \<^verbatim>\<open>constructor\<close> the
  stablecoin client reads the inherited value from the empty table and gives undefined.
  The join of preFetchNetworkData also turns eight rejected promises into a snapshot of
  defaults.
\<close>

theorem snapshot_defaults_when_all_fail:
  "map_option fetchedAt (cachedSnapshot (preFetchNetwork w now e net st) (n_name net))
     = Some (now + int e)
   \<and> (statsCardLookup now net st = CacheMiss \<longrightarrow>
        map_option fetchedAt
          (cachedSnapshot (snd (statsCardEffect w now e net st)) (n_name net))
          = Some (now + int e))
   \<and> (allProvidersFail w \<and> bulkCachesMiss now (services st) \<and>
        \<not> inheritedName (n_name net) \<longrightarrow>
        map_option hasDefaults (cachedSnapshot (preFetchNetwork w now e net st) (n_name net))
          = Some True)
   \<and> (allProvidersFail w \<and> bulkCachesMiss now (services st) \<and>
        \<not> inheritedName (n_name net) \<and> statsCardLookup now net st = CacheMiss \<longrightarrow>
        map_option hasDefaults
          (cachedSnapshot (snd (statsCardEffect w now e net st)) (n_name net)) = Some True)
   \<and> (net \<in> set BASE_NETWORKS \<longrightarrow> \<not> inheritedName (n_name net))
   \<and> assembleSettled Rejected Rejected Rejected Rejected Rejected Rejected Rejected Rejected
        stamp =
       \<lparr>detailedData = None, priceData = None, historicalData = None,
        dexScreenerData = None, stablecoinData = Some 0, yieldData = None, topYields = None,
        fearGreedData = None, fetchedAt = stamp\<rparr>"
proof -
  have roster: "net \<in> set BASE_NETWORKS \<longrightarrow> \<not> inheritedName (n_name net)"
    using roster_names_ordinary by (simp add: list_all_iff)
  have stamp: "statsCardLookup now net st = CacheMiss \<longrightarrow>
        map_option fetchedAt
          (cachedSnapshot (snd (statsCardEffect w now e net st)) (n_name net))
          = Some (now + int e)"
    by (rule impI) (rule statsCard_stamp)
  have pre: "allProvidersFail w \<and> bulkCachesMiss now (services st) \<and>
        \<not> inheritedName (n_name net) \<longrightarrow>
        map_option hasDefaults (cachedSnapshot (preFetchNetwork w now e net st) (n_name net))
          = Some True"
    using preFetch_defaults by blast
  have card: "allProvidersFail w \<and> bulkCachesMiss now (services st) \<and>
        \<not> inheritedName (n_name net) \<and> statsCardLookup now net st = CacheMiss \<longrightarrow>
        map_option hasDefaults
          (cachedSnapshot (snd (statsCardEffect w now e net st)) (n_name net)) = Some True"
    using statsCard_defaults by blast
  show ?thesis
    by (rule conjI[OF preFetch_stamp conjI[OF stamp conjI[OF pre conjI[OF card
          conjI[OF roster assembleSettled_rejected]]]]])
qed

theorem snapshot_defaults_when_all_fail_witness:
  "allProvidersFail deadWorld \<and> bulkCachesMiss 1000 (services initState)
   \<and> ethereumNet \<in> set BASE_NETWORKS \<and> inheritedName (n_name ethereumNet) = False
   \<and> statsCardLookup 1000 ethereumNet initState = CacheMiss
   \<and> map_option fetchedAt
         (cachedSnapshot (snd (statsCardEffect deadWorld 1000 20 ethereumNet initState))
            (n_name ethereumNet)) = Some (1000 + int 20)
   \<and> map_option hasDefaults
         (cachedSnapshot (preFetchNetwork deadWorld 1000 20 ethereumNet initState)
            (n_name ethereumNet)) = Some True
   \<and> map_option hasDefaults
         (cachedSnapshot (snd (statsCardEffect deadWorld 1000 20 ethereumNet initState))
            (n_name ethereumNet)) = Some True"
proof -
  have a: "allProvidersFail deadWorld"
    by (simp add: allProvidersFail_def deadWorld_def)
  have b: "bulkCachesMiss 1000 (services initState)"
    by (simp add: bulkCachesMiss_def initState_def coldServices_def coldStable_def
          coldYields_def coldFng_def)
  have c: "statsCardLookup 1000 ethereumNet initState = CacheMiss"
    by (simp add: statsCardLookup_def initState_def)
  have m: "ethereumNet \<in> set BASE_NETWORKS"
    by code_simp
  note t = snapshot_defaults_when_all_fail[where w = deadWorld and now = 1000 and e = 20
      and net = ethereumNet and st = initState]
  note o = mp[OF t[THEN conjunct2, THEN conjunct2, THEN conjunct2, THEN conjunct2,
        THEN conjunct1] m]
  have o': "inheritedName (n_name ethereumNet) = False"
    using o by simp
  note s = mp[OF t[THEN conjunct2, THEN conjunct1] c]
  note p = mp[OF t[THEN conjunct2, THEN conjunct2, THEN conjunct1] conjI[OF a conjI[OF b o]]]
  note q = mp[OF t[THEN conjunct2, THEN conjunct2, THEN conjunct2, THEN conjunct1]
      conjI[OF a conjI[OF b conjI[OF o c]]]]
  show ?thesis
    by (rule conjI[OF a conjI[OF b conjI[OF m conjI[OF o' conjI[OF c conjI[OF s
          conjI[OF p q]]]]]]])
qed

section \<open>Properties of the roster\<close>

lemma withMarketShare_keeps:
  "n_name (withMarketShare t n) = n_name n \<and> n_color (withMarketShare t n) = n_color n \<and>
   n_pos (withMarketShare t n) = n_pos n \<and> n_rawTvl (withMarketShare t n) = n_rawTvl n"
  by (simp add: withMarketShare_def Let_def)

lemma updateBaseNetwork_keeps:
  "n_name (updateBaseNetwork tvl an n) = n_name n \<and>
   n_color (updateBaseNetwork tvl an n) = n_color n \<and>
   n_pos (updateBaseNetwork tvl an n) = n_pos n"
  by (simp add: updateBaseNetwork_def Let_def)

lemma loadAnalytics_split:
  "take (length BASE_NETWORKS) (loadAnalytics w) =
     map (\<lambda>n. withMarketShare (foldl (\<lambda>acc kv. acc + te_tvl (snd kv)) 0 (fetchChainTVL w))
               (updateBaseNetwork (fetchChainTVL w) (fetchAllNetworkAnalytics w) n))
       BASE_NETWORKS
   \<and> drop (length BASE_NETWORKS) (loadAnalytics w) =
     map (withMarketShare (foldl (\<lambda>acc kv. acc + te_tvl (snd kv)) 0 (fetchChainTVL w)))
       (additionalNetworks BASE_NETWORKS (fetchAllChains w))"
  by (simp add: loadAnalytics_def Let_def take_map drop_map)

lemma additional_invariant:
  assumes "\<forall>n \<in> set acc. n_name n \<notin> set (map n_name base) \<and>
             (\<exists>c \<in> set cs. lc_name c = n_name n \<and> lc_tvl c > 100000000 \<and>
                n_rawTvl n = Some (lc_tvl c))"
    and "set chs \<subseteq> set cs"
  shows "\<forall>n \<in> set (foldl (\<lambda>additional chain.
              if lc_name chain \<notin> set (map n_name base) \<and> lc_tvl chain > 100000000
              then additional @
                   [\<lparr>n_name = lc_name chain,
                     n_symbol = orStr (lc_tokenSymbol chain) (toUpperCase (take 3 (lc_name chain))),
                     n_color = ColorOfName (lc_name chain),
                     n_pos = FibonacciPoint (length base + length additional) 20,
                     n_geckoId = lc_geckoId chain,
                     n_rawTvl = Some (lc_tvl chain),
                     n_marketShare = Some 0\<rparr>]
              else additional) acc chs).
           n_name n \<notin> set (map n_name base) \<and>
           (\<exists>c \<in> set cs. lc_name c = n_name n \<and> lc_tvl c > 100000000 \<and>
              n_rawTvl n = Some (lc_tvl c))"
  using assms
proof (induction chs arbitrary: acc)
  case Nil
  then show ?case by simp
next
  case (Cons chain chs)
  show ?case
  proof (cases "lc_name chain \<notin> set (map n_name base) \<and> lc_tvl chain > 100000000")
    case True
    let ?new = "\<lparr>n_name = lc_name chain,
                     n_symbol = orStr (lc_tokenSymbol chain) (toUpperCase (take 3 (lc_name chain))),
                     n_color = ColorOfName (lc_name chain),
                     n_pos = FibonacciPoint (length base + length acc) 20,
                     n_geckoId = lc_geckoId chain,
                     n_rawTvl = Some (lc_tvl chain),
                     n_marketShare = Some 0\<rparr>"
    have inv: "\<forall>n \<in> set (acc @ [?new]). n_name n \<notin> set (map n_name base) \<and>
             (\<exists>c \<in> set cs. lc_name c = n_name n \<and> lc_tvl c > 100000000 \<and>
                n_rawTvl n = Some (lc_tvl c))"
      using Cons.prems True by auto
    have sub: "set chs \<subseteq> set cs"
      using Cons.prems(2) by simp
    from Cons.IH[OF inv sub] True show ?thesis
      by simp
  next
    case False
    have sub: "set chs \<subseteq> set cs"
      using Cons.prems(2) by simp
    from Cons.IH[OF Cons.prems(1) sub] False show ?thesis
      by auto
  qed
qed

lemma additionalNetworks_sound:
  "\<forall>n \<in> set (additionalNetworks base cs).
     n_name n \<notin> set (map n_name base) \<and>
     (\<exists>c \<in> set cs. lc_name c = n_name n \<and> lc_tvl c > 100000000 \<and>
        n_rawTvl n = Some (lc_tvl c))"
  unfolding additionalNetworks_def
  by (rule additional_invariant) simp_all

lemma fetchAllChains_from_listing:
  "\<forall>c \<in> set (fetchAllChains w).
     \<exists>data. w_chains w = Ok data \<and>
       (\<exists>row \<in> set data. cr_name row = lc_name c \<and> cr_tvl row = Some (lc_tvl c))"
proof (cases "w_chains w")
  case (Ok data)
  have sub: "set (take 20 (sort_key (\<lambda>chain. - orZero (cr_tvl chain))
                (filter (\<lambda>chain. orZero (cr_tvl chain) \<noteq> 0 \<and> orZero (cr_tvl chain) > 1000000) data)))
             \<subseteq> {row \<in> set data. orZero (cr_tvl row) \<noteq> 0}"
    using set_take_subset[of 20 "sort_key (\<lambda>chain. - orZero (cr_tvl chain))
                (filter (\<lambda>chain. orZero (cr_tvl chain) \<noteq> 0 \<and> orZero (cr_tvl chain) > 1000000) data)"]
    by auto
  have some: "orZero v \<noteq> 0 \<Longrightarrow> v = Some (orZero v)" for v
    by (cases v) (simp_all add: orZero_def)
  show ?thesis
    using Ok sub some by (fastforce simp: fetchAllChains_def)
next
  case NetworkError
  then show ?thesis by (simp add: fetchAllChains_def)
next
  case HttpError
  then show ?thesis by (simp add: fetchAllChains_def)
qed

text \<open>
  C9. After loadAnalytics the roster starts with the base networks, in order, each with
  its name, colour and position unchanged, so no base network is removed; every network
  after them is absent from the base roster and comes from an entry of fetchAllChains
  with TVL above 100000000, and every such entry is a row of the provider's listing.
\<close>

theorem roster_append_only:
  "map n_name (take (length BASE_NETWORKS) (loadAnalytics w)) = map n_name BASE_NETWORKS
   \<and> map n_color (take (length BASE_NETWORKS) (loadAnalytics w)) = map n_color BASE_NETWORKS
   \<and> map n_pos (take (length BASE_NETWORKS) (loadAnalytics w)) = map n_pos BASE_NETWORKS
   \<and> (\<forall>n \<in> set (drop (length BASE_NETWORKS) (loadAnalytics w)).
         n_name n \<notin> set (map n_name BASE_NETWORKS) \<and>
         (\<exists>c \<in> set (fetchAllChains w).
            lc_name c = n_name n \<and> lc_tvl c > 100000000 \<and> n_rawTvl n = Some (lc_tvl c)))
   \<and> (\<forall>c \<in> set (fetchAllChains w).
         \<exists>data. w_chains w = Ok data \<and>
           (\<exists>row \<in> set data. cr_name row = lc_name c \<and> cr_tvl row = Some (lc_tvl c)))
   \<and> set (map n_name BASE_NETWORKS) \<subseteq> set (map n_name (loadAnalytics w))"
proof -
  note sp = loadAnalytics_split[of w]
  have a: "map n_name (take (length BASE_NETWORKS) (loadAnalytics w)) = map n_name BASE_NETWORKS"
    by (simp add: sp[THEN conjunct1] comp_def withMarketShare_keeps updateBaseNetwork_keeps)
  have b: "map n_color (take (length BASE_NETWORKS) (loadAnalytics w)) = map n_color BASE_NETWORKS"
    by (simp add: sp[THEN conjunct1] comp_def withMarketShare_keeps updateBaseNetwork_keeps)
  have c: "map n_pos (take (length BASE_NETWORKS) (loadAnalytics w)) = map n_pos BASE_NETWORKS"
    by (simp add: sp[THEN conjunct1] comp_def withMarketShare_keeps updateBaseNetwork_keeps)
  have d: "\<forall>n \<in> set (drop (length BASE_NETWORKS) (loadAnalytics w)).
         n_name n \<notin> set (map n_name BASE_NETWORKS) \<and>
         (\<exists>c \<in> set (fetchAllChains w).
            lc_name c = n_name n \<and> lc_tvl c > 100000000 \<and> n_rawTvl n = Some (lc_tvl c))"
    using additionalNetworks_sound[of BASE_NETWORKS "fetchAllChains w"]
    by (simp add: sp[THEN conjunct2] withMarketShare_keeps)
  have e: "set (map n_name BASE_NETWORKS) \<subseteq> set (map n_name (loadAnalytics w))"
  proof -
    have "set (map n_name (take (length BASE_NETWORKS) (loadAnalytics w)))
            \<subseteq> set (map n_name (loadAnalytics w))"
      by (metis set_take_subset take_map)
    then show ?thesis
      by (simp only: a)
  qed
  show ?thesis
    using a b c d fetchAllChains_from_listing e by (intro conjI)
qed

theorem roster_append_only_witness:
  "mantleNet \<in> set (drop (length BASE_NETWORKS) (loadAnalytics listingWorld))
   \<and> n_name mantleNet \<notin> set (map n_name BASE_NETWORKS)
   \<and> map n_name (take (length BASE_NETWORKS) (loadAnalytics listingWorld))
       = map n_name BASE_NETWORKS
   \<and> map n_name (drop (length BASE_NETWORKS) (loadAnalytics listingWorld)) = [''Mantle'']"
proof -
  have m: "mantleNet \<in> set (drop (length BASE_NETWORKS) (loadAnalytics listingWorld))"
    by code_simp
  have l: "map n_name (drop (length BASE_NETWORKS) (loadAnalytics listingWorld)) = [''Mantle'']"
    by code_simp
  note t = roster_append_only[of listingWorld]
  note ball = t[THEN conjunct2, THEN conjunct2, THEN conjunct2, THEN conjunct1]
  note x = bspec[OF ball m, THEN conjunct1]
  show ?thesis
    by (rule conjI[OF m conjI[OF x conjI[OF t[THEN conjunct1] l]]])
qed

section \<open>Properties of the numeric fields\<close>

text \<open>
  C6, evaluated where the code departs from it. A history whose previous day has TVL 0
  gives a one-day change of infinity, which fetchNetworkDetails passes on; a history of
  a single zero entry, or an entry without \<open>tvl\<close>, gives NaN; an index entry without
  \<open>value\<close> gives the value NaN.
\<close>

theorem percent_change_and_parseInt_not_finite:
  "map_option change1d (fetchChainHistoricalTVL newChainWorld ''Ethereum'') = Some PosInf
   \<and> d_tvlChange1d (fetchNetworkDetails newChainWorld ''Ethereum'') = PosInf
   \<and> isFiniteNum PosInf = False
   \<and> map_option change7d
        (historicalOf [\<lparr>h_date = Some 1700000000, h_tvl = Some 0\<rparr>]) = Some NaN
   \<and> map_option change1d
        (historicalOf [\<lparr>h_date = Some 1700000000, h_tvl = None\<rparr>,
                       \<lparr>h_date = Some 1700086400, h_tvl = Some 100\<rparr>]) = Some NaN
   \<and> map_option fg_value (fst (fetchFearGreedIndex newChainWorld 1000 coldFng)) = Some NaN
   \<and> isFiniteNum NaN = False"
  by code_simp

end
